theory Spec2Isabelle
  imports Main "HOL-Library.AList"
begin

section \<open>Python strings\<close>

text \<open>
  The ingestion module \<^verbatim>\<open>extract_ingest.py\<close> works on Python \<^verbatim>\<open>str\<close> values. A string is
  modelled as a list of characters, a character being a code point below 256 (Latin-1).
  The predicates below follow Python on that range: \<^verbatim>\<open>str.isspace\<close> (which is also what
  \<^verbatim>\<open>\s\<close> matches in a \<^verbatim>\<open>str\<close> pattern) and \<^verbatim>\<open>str.lower\<close>.
\<close>

definition isspace :: "char \<Rightarrow> bool" where
  "isspace c = (let n = (of_char c :: nat) in
     (9 \<le> n \<and> n \<le> 13) \<or> (28 \<le> n \<and> n \<le> 32) \<or> n = 133 \<or> n = 160)"

definition is_digit :: "char \<Rightarrow> bool" where
  "is_digit c = (let n = (of_char c :: nat) in 48 \<le> n \<and> n \<le> 57)"

definition is_ascii_upper :: "char \<Rightarrow> bool" where
  "is_ascii_upper c = (let n = (of_char c :: nat) in 65 \<le> n \<and> n \<le> 90)"

definition is_ascii_lower :: "char \<Rightarrow> bool" where
  "is_ascii_lower c = (let n = (of_char c :: nat) in 97 \<le> n \<and> n \<le> 122)"

definition is_upper :: "char \<Rightarrow> bool" where
  "is_upper c = (let n = (of_char c :: nat) in
     (65 \<le> n \<and> n \<le> 90) \<or> (192 \<le> n \<and> n \<le> 222 \<and> n \<noteq> 215))"

definition lower_char :: "char \<Rightarrow> char" where
  "lower_char c = (if is_upper c then char_of ((of_char c :: nat) + 32) else c)"

text \<open>\<^verbatim>\<open>s.lower()\<close>\<close>

definition lower :: "string \<Rightarrow> string" where
  "lower s = map lower_char s"

text \<open>\<^verbatim>\<open>s.strip()\<close>: leading and trailing whitespace removed.\<close>

definition strip :: "string \<Rightarrow> string" where
  "strip s = rev (dropWhile isspace (rev (dropWhile isspace s)))"

text \<open>
  \<^verbatim>\<open>s.replace(old, new)\<close> for a non-empty \<^verbatim>\<open>old\<close>: every non-overlapping occurrence,
  found from the left, is replaced. (The source never calls it with an empty \<^verbatim>\<open>old\<close>;
  the model returns the string unchanged there.)
\<close>

function str_replace :: "string \<Rightarrow> string \<Rightarrow> string \<Rightarrow> string" where
  "str_replace old new s =
     (if s = [] \<or> old = [] then s
      else if take (length old) s = old
        then new @ str_replace old new (drop (length old) s)
      else hd s # str_replace old new (tl s))"
  by pat_completeness auto
termination
  by (relation "measure (\<lambda>(old, new, s). length s)") auto

declare str_replace.simps [simp del]

text \<open>
  \<^verbatim>\<open>re.sub("[C]+", rep, s)\<close> for a character class \<^verbatim>\<open>C\<close>: every maximal run of
  characters of the class is replaced by \<^verbatim>\<open>rep\<close>.
\<close>

function sub_runs :: "(char \<Rightarrow> bool) \<Rightarrow> string \<Rightarrow> string \<Rightarrow> string" where
  "sub_runs P rep [] = []"
| "sub_runs P rep (c # cs) =
     (if P c then rep @ sub_runs P rep (dropWhile P cs) else c # sub_runs P rep cs)"
  by pat_completeness auto
termination
  by (relation "measure (\<lambda>(P, rep, s). length s)")
     (auto simp: length_dropWhile_le less_Suc_eq_le)

text \<open>\<^verbatim>\<open>s.startswith(p)\<close>\<close>

definition startswith :: "string \<Rightarrow> string \<Rightarrow> bool" where
  "startswith s p = (take (length p) s = p)"

text \<open>\<^verbatim>\<open>sep.join(xs)\<close>\<close>

fun join :: "string \<Rightarrow> string list \<Rightarrow> string" where
  "join sep [] = []"
| "join sep [x] = x"
| "join sep (x # y # ys) = x @ sep @ join sep (y # ys)"

text \<open>
  \<^verbatim>\<open>s.split(sep)\<close> for a one-character separator: the pieces between the separators
  (never an empty list).
\<close>

fun split_on :: "char \<Rightarrow> string \<Rightarrow> string list" where
  "split_on sep [] = [[]]"
| "split_on sep (c # cs) =
     (if c = sep then [] # split_on sep cs
      else (case split_on sep cs of
              [] \<Rightarrow> [[c]]
            | p # ps \<Rightarrow> (c # p) # ps))"

text \<open>\<^verbatim>\<open>s.split(sep)[0]\<close>: what precedes the first separator.\<close>

definition before_first :: "char \<Rightarrow> string \<Rightarrow> string" where
  "before_first sep s = takeWhile (\<lambda>c. c \<noteq> sep) s"

text \<open>\<^verbatim>\<open>s.split(sep)[-1]\<close>: what follows the last separator.\<close>

definition after_last :: "char \<Rightarrow> string \<Rightarrow> string" where
  "after_last sep s = rev (takeWhile (\<lambda>c. c \<noteq> sep) (rev s))"

text \<open>\<^verbatim>\<open>os.path.basename(p)\<close>: what follows the last slash.\<close>

definition basename :: "string \<Rightarrow> string" where
  "basename p = after_last (CHR ''/'') p"


section \<open>Column-name canonicalization\<close>

text \<open>The class \<^verbatim>\<open>[\s/\\.-]\<close>: whitespace, slash, backslash, dot, hyphen.\<close>

definition sep_char :: "char \<Rightarrow> bool" where
  "sep_char c = (isspace c \<or> c = CHR ''/'' \<or> c = CHR 0x5C \<or> c = CHR ''.'' \<or> c = CHR ''-'')"

text \<open>The class \<^verbatim>\<open>[0-9a-zA-Z_]\<close>.\<close>

definition word_char :: "char \<Rightarrow> bool" where
  "word_char c = (is_digit c \<or> is_ascii_lower c \<or> is_ascii_upper c \<or> c = CHR ''_'')"

definition normalize_column_name :: "string \<Rightarrow> string" where
  "normalize_column_name col =
     (let col = strip col;
          col = str_replace [CHR 0x0A] '' '' col;
          col = sub_runs sep_char ''_'' col;
          col = sub_runs (\<lambda>c. \<not> word_char c) [] col;
          col = lower col;
          col = sub_runs (\<lambda>c. c = CHR ''_'') ''_'' col
      in col)"

section \<open>Email cleaning\<close>

text \<open>
  A value held in a cell of a dataframe column. \<^verbatim>\<open>isinstance(v, str)\<close> holds for
  \<open>PyStr\<close> only; \<open>PyNaN\<close> is the float that pandas puts in a missing cell.
\<close>

datatype pyval = PyStr string | PyNone | PyNaN | PyInt int | PyBool bool

text \<open>
  \<^verbatim>\<open>EMAIL_REGEX = ^[A-Za-z0-9._%+-]+@[A-Za-z0-9.-]+\.[A-Za-z]{2,}$\<close>.
  The three character classes:
\<close>

definition is_alnum :: "char \<Rightarrow> bool" where
  "is_alnum c = (is_digit c \<or> is_ascii_lower c \<or> is_ascii_upper c)"

definition is_alpha :: "char \<Rightarrow> bool" where
  "is_alpha c = (is_ascii_lower c \<or> is_ascii_upper c)"

definition local_char :: "char \<Rightarrow> bool" where
  "local_char c = (is_alnum c \<or> c \<in> set ''._%+-'')"

definition domain_char :: "char \<Rightarrow> bool" where
  "domain_char c = (is_alnum c \<or> c \<in> set ''.-'')"

text \<open>
  The words of the pattern between \<^verbatim>\<open>^\<close> and \<^verbatim>\<open>$\<close>: a non-empty local part, the
  at sign, a non-empty domain, a dot and at least two letters.
\<close>

definition email_lang :: "string \<Rightarrow> bool" where
  "email_lang s = (\<exists>l d t. s = l @ ''@'' @ d @ ''.'' @ t \<and>
      l \<noteq> [] \<and> list_all local_char l \<and> d \<noteq> [] \<and> list_all domain_char d \<and>
      2 \<le> length t \<and> list_all is_alpha t)"

text \<open>
  The same words, decided by a function: no class of the local part holds the at sign
  and no letter is a dot, so the local part is the longest prefix of local characters
  and the letters are the longest suffix of letters.
\<close>

definition email_fullmatch :: "string \<Rightarrow> bool" where
  "email_fullmatch s =
     (let l = takeWhile local_char s;
          r = dropWhile local_char s
      in l \<noteq> [] \<and> r \<noteq> [] \<and> hd r = CHR ''@'' \<and>
         (let t = rev (takeWhile is_alpha (rev (tl r)));
              p = rev (dropWhile is_alpha (rev (tl r)))
          in 2 \<le> length t \<and> p \<noteq> [] \<and> last p = CHR ''.'' \<and>
             butlast p \<noteq> [] \<and> list_all domain_char (butlast p)))"

text \<open>
  \<^verbatim>\<open>EMAIL_REGEX.match(s)\<close> as a truth value. Python's \<^verbatim>\<open>$\<close> matches at the end of
  the string and also just before a newline that ends the string.
\<close>

definition EMAIL_REGEX_match :: "string \<Rightarrow> bool" where
  "EMAIL_REGEX_match s =
     (email_fullmatch s \<or>
      (s \<noteq> [] \<and> last s = CHR 0x0A \<and> email_fullmatch (butlast s)))"

text \<open>
  The substitutions of \<^verbatim>\<open>clean_email\<close>, in the source's order. The last one is
  \<^verbatim>\<open>email.replace("\s+", "")\<close>: a \<^verbatim>\<open>str.replace\<close>, so it removes the three characters
  backslash, s, plus where they occur literally and leaves whitespace in place.
\<close>

definition at_substitutions :: "string \<Rightarrow> string" where
  "at_substitutions e =
     str_replace '' at '' ''@'' (str_replace ''[at]'' ''@'' (str_replace ''(at)'' ''@'' e))"

definition clean_email :: "pyval \<Rightarrow> pyval" where
  "clean_email email =
     (case email of
        PyStr s \<Rightarrow>
          (let email = lower (strip s);
               email = at_substitutions email;
               email = str_replace [CHR 0x5C, CHR ''s'', CHR ''+''] [] email
           in if EMAIL_REGEX_match email then PyStr email else PyNone)
      | _ \<Rightarrow> PyNone)"



text \<open>\<^verbatim>\<open>isinstance(v, str)\<close>\<close>

definition isinstance_str :: "pyval \<Rightarrow> bool" where
  "isinstance_str v = (case v of PyStr s \<Rightarrow> True | _ \<Rightarrow> False)"

section \<open>Data model\<close>

text \<open>Exceptions, as values. \<open>RetryError\<close> is what \<^verbatim>\<open>tenacity\<close> raises when it gives up;
  \<open>ServiceError\<close> stands for whatever a client library raises (network, credentials,
  throttling, parsing).\<close>

datatype exn =
    ValueError string
  | AssertionError string
  | KeyError string
  | ServiceError string
  | RetryError exn

text \<open>
  A dataframe: its number of rows and its columns in order, each with a label, a dtype
  and one cell per row.
\<close>

record column =
  label :: string
  dtype :: string
  cells :: "pyval list"

record dataframe =
  nrows :: nat
  columns :: "column list"

text \<open>\<^verbatim>\<open>pd.DataFrame()\<close>\<close>

definition empty_frame :: dataframe where
  "empty_frame = \<lparr>nrows = 0, columns = []\<rparr>"

text \<open>\<^verbatim>\<open>df.empty\<close>: one of the two axes has length zero.\<close>

definition df_empty :: "dataframe \<Rightarrow> bool" where
  "df_empty df = (nrows df = 0 \<or> columns df = [])"

text \<open>\<^verbatim>\<open>name in df.columns\<close>\<close>

definition has_column :: "dataframe \<Rightarrow> string \<Rightarrow> bool" where
  "has_column df name = (name \<in> set (map label (columns df)))"

text \<open>The cells of the first column with a label (\<^verbatim>\<open>df[name]\<close> when the label is unique).\<close>

definition get_cells :: "dataframe \<Rightarrow> string \<Rightarrow> pyval list" where
  "get_cells df name =
     (case filter (\<lambda>c. label c = name) (columns df) of
        [] \<Rightarrow> []
      | c # _ \<Rightarrow> cells c)"

definition get_dtype :: "dataframe \<Rightarrow> string \<Rightarrow> string" where
  "get_dtype df name =
     (case filter (\<lambda>c. label c = name) (columns df) of
        [] \<Rightarrow> []
      | c # _ \<Rightarrow> dtype c)"

text \<open>
  \<^verbatim>\<open>df[name] = values\<close>: the column with that label takes the values in place; a new
  label is appended as the last column.
\<close>

definition set_column :: "dataframe \<Rightarrow> string \<Rightarrow> string \<Rightarrow> pyval list \<Rightarrow> dataframe" where
  "set_column df name dt vals =
     (if has_column df name
      then df\<lparr>columns :=
                map (\<lambda>c. if label c = name then c\<lparr>dtype := dt, cells := vals\<rparr> else c)
                  (columns df)\<rparr>
      else df\<lparr>columns := columns df @ [\<lparr>label = name, dtype = dt, cells = vals\<rparr>]\<rparr>)"

text \<open>\<^verbatim>\<open>df[name] = scalar\<close>: the string is repeated on every row.\<close>

definition set_scalar :: "dataframe \<Rightarrow> string \<Rightarrow> string \<Rightarrow> dataframe" where
  "set_scalar df name v = set_column df name ''object'' (replicate (nrows df) (PyStr v))"

definition normalize_columns :: "dataframe \<Rightarrow> dataframe" where
  "normalize_columns df =
     df\<lparr>columns := map (\<lambda>c. c\<lparr>label := normalize_column_name (label c)\<rparr>) (columns df)\<rparr>"

text \<open>
  The cleaning step that the three flows share:
  \<^verbatim>\<open>if 'email' in df.columns: df['email_raw'] = df['email']; df['email'] = df['email'].apply(clean_email)\<close>.
  When canonicalization has left several columns labelled \<^verbatim>\<open>email\<close>, \<^verbatim>\<open>df['email']\<close> is a
  frame of several columns and pandas refuses to assign it to the one label: the step
  raises.
\<close>

definition email_hygiene :: "dataframe \<Rightarrow> exn + dataframe" where
  "email_hygiene df =
     (if has_column df ''email''
      then (if length (filter (\<lambda>c. label c = ''email'') (columns df)) \<noteq> 1
            then Inl (ValueError ''Cannot set a DataFrame with multiple columns to the single column email_raw'')
            else (let df = set_column df ''email_raw'' (get_dtype df ''email'') (get_cells df ''email'');
                      df = set_column df ''email'' ''object'' (map clean_email (get_cells df ''email''))
                  in Inr df))
      else Inr df)"

text \<open>The record written beside every artifact and kept in the manifest.\<close>

record metadata =
  source :: string
  source_path :: string
  load_time_utc :: string
  record_count :: nat
  schema_hash :: string

text \<open>
  The manifest is a Python dict from source identifier to metadata: an association list
  read with \<open>map_of\<close> and written with \<open>AList.update\<close> (an existing key keeps its place,
  a new key is added).
\<close>

type_synonym manifest = "(string \<times> metadata) list"

text \<open>An entry of the listing of a prefix: \<^verbatim>\<open>{'Bucket': .., 'Key': .., 'Size': ..}\<close>.\<close>

record s3_object =
  Bucket :: string
  Key :: string
  Size :: nat

record datetime =
  year :: nat
  month :: nat
  day :: nat
  hour :: nat
  minute :: nat
  second :: nat
  microsecond :: nat

text \<open>What is stored under a key of the object store.\<close>

datatype blob = ParquetFile dataframe | JsonDoc metadata

text \<open>What a run does to the outside, in order.\<close>

datatype event =
    LogInfo string
  | LogWarning string
  | LogException string
  | Sleep nat
  | S3GetObject string string
  | S3UploadFile string string
  | S3PutObject string string
  | ManifestFlush

text \<open>
  The state a run works on: the objects written to the store, the manifest document
  (\<open>None\<close> while it does not exist), the scratch files present in \<^verbatim>\<open>LOCAL_TMP\<close>, the
  number of clock readings taken, and the trace of events.
\<close>

record world =
  bucket_store :: "(string \<times> blob) list"
  manifest_doc :: "manifest option"
  tmp_dir :: "nat list"
  ticks :: nat
  trace :: "event list"

text \<open>The module's configuration constants, read from the environment at import.\<close>

record config =
  S3_RAW_BUCKET :: string
  S3_RAW_PREFIX :: string
  CUSTOMERS_S3_PREFIX :: string
  CALL_LOGS_PREFIX :: string
  SOCIAL_PREFIX :: string
  GOOGLE_SERVICE_ACCOUNT :: string
  GOOGLE_SHEET_ID :: string
  GOOGLE_SHEET_RANGE :: string
  POSTGRES_SSM_PARAM :: string
  POSTGRES_SCHEMA :: string
  POSTGRES_TABLES :: string

text \<open>
  The libraries and services the module calls, as functions of their arguments: the
  clock (by reading number), \<^verbatim>\<open>hashlib.md5\<close>, the object store (a read by bucket, key and
  attempt number), the pandas readers and constructors, the parameter store, the database
  (by attempt number), the spreadsheet service, and the faults of the writing calls
  (\<open>None\<close>: the call succeeds).
\<close>

record services =
  utc_clock :: "nat \<Rightarrow> datetime"
  md5_hexdigest :: "string \<Rightarrow> string"
  list_objects_v2 :: "string \<Rightarrow> string \<Rightarrow> exn + (string \<times> nat) list"
  get_object :: "string \<Rightarrow> string \<Rightarrow> nat \<Rightarrow> exn + string"
  read_csv :: "string \<Rightarrow> exn + dataframe"
  read_json :: "string \<Rightarrow> bool \<Rightarrow> exn + dataframe"
  ssm_get_parameter :: "string \<Rightarrow> exn + (string \<times> string) list"
  pg_connect :: "(string \<times> string) list \<Rightarrow> nat \<Rightarrow> exn option"
  read_sql :: "string \<Rightarrow> nat \<Rightarrow> exn + dataframe list"
  concat_frames :: "dataframe list \<Rightarrow> dataframe"
  sheets_values_get :: "string \<Rightarrow> string \<Rightarrow> string \<Rightarrow> exn + string list list"
  frame_of_rows :: "string list list \<Rightarrow> string list \<Rightarrow> exn + dataframe"
  write_table_fault :: "dataframe \<Rightarrow> exn option"
  upload_file_fault :: "string \<Rightarrow> string \<Rightarrow> exn option"
  put_object_fault :: "string \<Rightarrow> string \<Rightarrow> exn option"
  manifest_read_fault :: "exn option"
  manifest_write_fault :: "exn option"

definition emit :: "event \<Rightarrow> world \<Rightarrow> world" where
  "emit e w = w\<lparr>trace := trace w @ [e]\<rparr>"

text \<open>\<^verbatim>\<open>datetime.datetime.utcnow()\<close>: one more reading of the clock.\<close>

definition utcnow :: "services \<Rightarrow> world \<Rightarrow> datetime \<times> world" where
  "utcnow sv w = (utc_clock sv (ticks w), w\<lparr>ticks := Suc (ticks w)\<rparr>)"

fun zero_pad :: "nat \<Rightarrow> nat \<Rightarrow> string" where
  "zero_pad 0 n = []"
| "zero_pad (Suc k) n = zero_pad k (n div 10) @ [char_of (48 + n mod 10)]"

text \<open>\<^verbatim>\<open>t.strftime('%Y-%m-%d')\<close>\<close>

definition strftime_date :: "datetime \<Rightarrow> string" where
  "strftime_date t = zero_pad 4 (year t) @ ''-'' @ zero_pad 2 (month t) @ ''-'' @ zero_pad 2 (day t)"

text \<open>\<^verbatim>\<open>t.strftime('%Y%m%d%H%M%S')\<close>\<close>

definition strftime_stamp :: "datetime \<Rightarrow> string" where
  "strftime_stamp t =
     zero_pad 4 (year t) @ zero_pad 2 (month t) @ zero_pad 2 (day t) @
     zero_pad 2 (hour t) @ zero_pad 2 (minute t) @ zero_pad 2 (second t)"

text \<open>\<^verbatim>\<open>t.isoformat()\<close>: the microseconds are printed unless they are zero.\<close>

definition isoformat :: "datetime \<Rightarrow> string" where
  "isoformat t =
     strftime_date t @ ''T'' @ zero_pad 2 (hour t) @ '':'' @ zero_pad 2 (minute t) @ '':'' @
     zero_pad 2 (second t) @
     (if microsecond t = 0 then [] else ''.'' @ zero_pad 6 (microsecond t))"

definition hash_df_schema :: "services \<Rightarrow> dataframe \<Rightarrow> string" where
  "hash_df_schema sv df =
     (let items = map (\<lambda>c. label c @ '':'' @ dtype c) (columns df);
          joined = join ''|'' items
      in md5_hexdigest sv joined)"

section \<open>Metadata store helpers\<close>

text \<open>
  \<^verbatim>\<open>read_processed_manifest\<close>: the document, the empty dict when it does not exist, and
  the empty dict (after logging) when reading raises.
\<close>

definition read_processed_manifest :: "services \<Rightarrow> world \<Rightarrow> manifest \<times> world" where
  "read_processed_manifest sv w =
     (case manifest_read_fault sv of
        Some e \<Rightarrow> ([], emit (LogException ''Failed to read processed manifest'') w)
      | None \<Rightarrow>
          (case manifest_doc w of
             None \<Rightarrow> ([], w)
           | Some m \<Rightarrow> (m, w)))"

text \<open>\<^verbatim>\<open>write_processed_manifest\<close>: a failure is logged and swallowed.\<close>

definition write_processed_manifest :: "services \<Rightarrow> manifest \<Rightarrow> world \<Rightarrow> world" where
  "write_processed_manifest sv m w =
     (let w = emit ManifestFlush w
      in case manifest_write_fault sv of
           Some e \<Rightarrow> emit (LogException ''Failed to write processed manifest'') w
         | None \<Rightarrow> emit (LogInfo ''Wrote processed manifest'') (w\<lparr>manifest_doc := Some m\<rparr>))"

section \<open>Object-store helpers\<close>

text \<open>
  \<^verbatim>\<open>bucket_key = path.replace('s3://', ''); bucket, key = bucket_key.split('/', 1)\<close>:
  the unpacking raises when there is no slash.
\<close>

definition split_bucket_key :: "string \<Rightarrow> exn + string \<times> string" where
  "split_bucket_key path =
     (let bucket_key = str_replace ''s3://'' [] path
      in if CHR ''/'' \<in> set bucket_key
         then Inr (before_first (CHR ''/'') bucket_key,
                   drop (Suc (length (before_first (CHR ''/'') bucket_key))) bucket_key)
         else Inl (ValueError ''not enough values to unpack (expected 2, got 1)''))"

definition list_s3_objects :: "services \<Rightarrow> string \<Rightarrow> exn + s3_object list" where
  "list_s3_objects sv prefix_s3 =
     (if \<not> startswith prefix_s3 ''s3://'' then Inl (AssertionError ''prefix must be s3://...'')
      else case split_bucket_key prefix_s3 of
             Inl e \<Rightarrow> Inl e
           | Inr (bucket, pfx) \<Rightarrow>
               (case list_objects_v2 sv bucket pfx of
                  Inl e \<Rightarrow> Inl e
                | Inr contents \<Rightarrow>
                    Inr (map (\<lambda>(k, sz). \<lparr>Bucket = bucket, Key = k, Size = sz\<rparr>) contents)))"

text \<open>
  \<^verbatim>\<open>wait_exponential(min=mn, max=mx)\<close> of \<^verbatim>\<open>tenacity\<close>, with its default multiplier 1 and
  base 2: the delay after the attempt numbered \<open>k\<close>.
\<close>

definition wait_exponential :: "nat \<Rightarrow> nat \<Rightarrow> nat \<Rightarrow> nat" where
  "wait_exponential mn mx k = max mn (min (2 ^ (k - 1)) mx)"

text \<open>
  The decorator
  \<^verbatim>\<open>@retry(wait=wait_exponential(min=1, max=30), stop=stop_after_attempt(5), retry=retry_if_exception_type(Exception))\<close>
  around a function: the attempt numbered \<open>k\<close> is made; whatever exception it raises,
  the call sleeps and tries again, and after the fifth failed attempt it raises
  \<open>RetryError\<close>.
\<close>

function retry_call ::
  "(nat \<Rightarrow> world \<Rightarrow> (exn + 'a) \<times> world) \<Rightarrow> nat \<Rightarrow> world \<Rightarrow> (exn + 'a) \<times> world" where
  "retry_call attempt k w =
     (case attempt k w of
        (Inr v, w') \<Rightarrow> (Inr v, w')
      | (Inl e, w') \<Rightarrow>
          if 5 \<le> k then (Inl (RetryError e), w')
          else retry_call attempt (Suc k) (emit (Sleep (wait_exponential 1 30 k)) w'))"
  by pat_completeness auto
termination
  by (relation "measure (\<lambda>(attempt, k, w). 5 - k)") auto

declare retry_call.simps [simp del]

text \<open>The body of \<^verbatim>\<open>download_s3_to_dataframe\<close>, as its attempt numbered \<open>k\<close>.\<close>

definition download_attempt ::
  "services \<Rightarrow> string \<Rightarrow> nat \<Rightarrow> world \<Rightarrow> (exn + dataframe) \<times> world" where
  "download_attempt sv s3_path k w =
     (let w = emit (LogInfo (''Reading '' @ s3_path)) w
      in if \<not> startswith s3_path ''s3://''
         then (Inl (ValueError ''s3_path must start with s3://''), w)
         else case split_bucket_key s3_path of
                Inl e \<Rightarrow> (Inl e, w)
              | Inr (bucket, key) \<Rightarrow>
                  (let ext = lower (after_last (CHR ''.'') key);
                       w = emit (S3GetObject bucket key) w
                   in case get_object sv bucket key k of
                        Inl e \<Rightarrow> (Inl e, w)
                      | Inr body \<Rightarrow>
                          if ext \<in> set [''csv'', ''txt''] then (read_csv sv body, w)
                          else if ext \<in> set [''json'']
                          then (case read_json sv body True of
                                  Inl (ValueError m) \<Rightarrow> (read_json sv body False, w)
                                | r \<Rightarrow> (r, w))
                          else (Inl (ValueError (''Unsupported extension: '' @ ext)), w)))"

definition download_s3_to_dataframe ::
  "services \<Rightarrow> string \<Rightarrow> world \<Rightarrow> (exn + dataframe) \<times> world" where
  "download_s3_to_dataframe sv s3_path w = retry_call (download_attempt sv s3_path) 1 w"

section \<open>Relational and spreadsheet extraction\<close>

text \<open>\<^verbatim>\<open>d[k]\<close> on a dict of strings: a missing key raises.\<close>

definition dict_get :: "(string \<times> string) list \<Rightarrow> string \<Rightarrow> exn + string" where
  "dict_get d k = (case map_of d k of None \<Rightarrow> Inl (KeyError k) | Some v \<Rightarrow> Inr v)"

text \<open>The first of the keys that the dict lacks, if any.\<close>

fun first_missing :: "(string \<times> string) list \<Rightarrow> string list \<Rightarrow> string option" where
  "first_missing d [] = None"
| "first_missing d (k # ks) = (if map_of d k = None then Some k else first_missing d ks)"

text \<open>
  The body of \<^verbatim>\<open>extract_postgres_table_to_df\<close>, as its attempt numbered \<open>k\<close>: connect
  (the credentials are read from the dict while the call is built), read the whole table
  in chunks, concatenate; the connection is closed on every path.
\<close>

definition extract_postgres_attempt ::
  "services \<Rightarrow> string \<Rightarrow> (string \<times> string) list \<Rightarrow> string \<Rightarrow> nat \<Rightarrow> world \<Rightarrow>
   (exn + dataframe) \<times> world" where
  "extract_postgres_attempt sv table_name credentials schema k w =
     (let w = emit (LogInfo (''Extracting Postgres table '' @ table_name)) w
      in case first_missing credentials [''host'', ''dbname'', ''username'', ''password''] of
           Some missing \<Rightarrow> (Inl (KeyError missing), w)
         | None \<Rightarrow>
             (case pg_connect sv credentials k of
                Some e \<Rightarrow> (Inl e, w)
              | None \<Rightarrow>
                  (let sql = ''SELECT * FROM '' @ schema @ ''.'' @ table_name
                   in case read_sql sv sql k of
                        Inl e \<Rightarrow> (Inl e, w)
                      | Inr dfs \<Rightarrow>
                          (Inr (if dfs \<noteq> [] then concat_frames sv dfs else empty_frame), w))))"

definition extract_postgres_table_to_df ::
  "services \<Rightarrow> config \<Rightarrow> string \<Rightarrow> (string \<times> string) list \<Rightarrow> world \<Rightarrow>
   (exn + dataframe) \<times> world" where
  "extract_postgres_table_to_df sv cfg table_name credentials w =
     retry_call (extract_postgres_attempt sv table_name credentials (POSTGRES_SCHEMA cfg)) 1 w"

definition get_ssm_param_json :: "services \<Rightarrow> string \<Rightarrow> exn + (string \<times> string) list" where
  "get_ssm_param_json sv name = ssm_get_parameter sv name"

definition extract_google_sheet_to_df ::
  "services \<Rightarrow> string \<Rightarrow> string \<Rightarrow> string \<Rightarrow> exn + dataframe" where
  "extract_google_sheet_to_df sv sheet_id range_name service_account_json =
     (case sheets_values_get sv service_account_json sheet_id range_name of
        Inl e \<Rightarrow> Inl e
      | Inr vals \<Rightarrow>
          (case vals of
             [] \<Rightarrow> Inr empty_frame
           | header # rows \<Rightarrow> frame_of_rows sv rows header))"


section \<open>Parquet writer\<close>

text \<open>
  \<^verbatim>\<open>tempfile.NamedTemporaryFile(delete=False, ...)\<close> creates a file under a name that no
  file of the directory has: here the number after the largest one present.
\<close>

definition fresh_tmp :: "nat list \<Rightarrow> nat" where
  "fresh_tmp files = Suc (foldr max files 0)"

text \<open>
  \<^verbatim>\<open>write_parquet_to_s3_atomic\<close>: create the scratch file, write the table into it,
  upload it, put the sidecar, remove the scratch file, return the location. Each of the
  library calls may raise, and the exception leaves the function where it is raised.
\<close>

definition write_parquet_to_s3_atomic ::
  "services \<Rightarrow> dataframe \<Rightarrow> string \<Rightarrow> metadata \<Rightarrow> world \<Rightarrow> (exn + string) \<times> world" where
  "write_parquet_to_s3_atomic sv df s3_output_path md w =
     (let tmp_file = fresh_tmp (tmp_dir w);
          w = w\<lparr>tmp_dir := tmp_dir w @ [tmp_file]\<rparr>
      in case write_table_fault sv df of
           Some e \<Rightarrow> (Inl e, w)
         | None \<Rightarrow>
             (case split_bucket_key s3_output_path of
                Inl e \<Rightarrow> (Inl e, w)
              | Inr (bucket, key) \<Rightarrow>
                  (let w = emit (S3UploadFile bucket key) w
                   in case upload_file_fault sv bucket key of
                        Some e \<Rightarrow> (Inl e, w)
                      | None \<Rightarrow>
                          (let w = w\<lparr>bucket_store :=
                                      AList.update (''s3://'' @ bucket @ ''/'' @ key)
                                        (ParquetFile df) (bucket_store w)\<rparr>;
                               w = emit (LogInfo (''Uploaded parquet to s3://'' @ bucket @ ''/'' @ key)) w;
                               metadata_key = key @ ''.metadata.json'';
                               w = emit (S3PutObject bucket metadata_key) w
                           in case put_object_fault sv bucket metadata_key of
                                Some e \<Rightarrow> (Inl e, w)
                              | None \<Rightarrow>
                                  (let w = w\<lparr>bucket_store :=
                                              AList.update (''s3://'' @ bucket @ ''/'' @ metadata_key)
                                                (JsonDoc md) (bucket_store w)\<rparr>;
                                       w = emit (LogInfo (''Wrote metadata sidecar s3://'' @ bucket @ ''/'' @ metadata_key)) w;
                                       w = w\<lparr>tmp_dir := removeAll tmp_file (tmp_dir w)\<rparr>
                                   in (Inr (''s3://'' @ bucket @ ''/'' @ key), w))))))"

section \<open>Ingestion flows\<close>

text \<open>
  The part that the three flows repeat after cleaning: stamp the load columns, build the
  output key from the clock (read three times, as the source does), build the metadata
  and call the writer. \<open>base\<close> is the name before the timestamp.
\<close>

definition output_key :: "config \<Rightarrow> string \<Rightarrow> string \<Rightarrow> string \<Rightarrow> datetime \<Rightarrow> string" where
  "output_key cfg source_name date_part base t =
     S3_RAW_PREFIX cfg @ ''/'' @ source_name @ ''/date='' @ date_part @ ''/'' @ base @ ''_'' @
     strftime_stamp t @ ''.parquet''"

definition stamp_and_write ::
  "services \<Rightarrow> config \<Rightarrow> string \<Rightarrow> string \<Rightarrow> string \<Rightarrow> dataframe \<Rightarrow> world \<Rightarrow>
   (exn + metadata) \<times> world" where
  "stamp_and_write sv cfg source_name identifier base df w =
     (let (t0, w) = utcnow sv w;
          load_time = isoformat t0;
          df = set_scalar df ''_ingest_load_time'' load_time;
          df = set_scalar df ''_source_path'' identifier;
          (t1, w) = utcnow sv w;
          date_part = strftime_date t1;
          (t2, w) = utcnow sv w;
          out_key = output_key cfg source_name date_part base t2;
          s3_out = ''s3://'' @ S3_RAW_BUCKET cfg @ ''/'' @ out_key;
          md = \<lparr>source = source_name, source_path = identifier, load_time_utc = load_time,
                record_count = nrows df, schema_hash = hash_df_schema sv df\<rparr>
      in case write_parquet_to_s3_atomic sv df s3_out md w of
           (Inl e, w) \<Rightarrow> (Inl e, w)
         | (Inr loc, w) \<Rightarrow> (Inr md, w))"

text \<open>
  The body of the \<^verbatim>\<open>try\<close> of \<^verbatim>\<open>process_s3_prefix\<close> for one object. \<open>Inr None\<close>: the
  dataframe was empty and the item is left (\<^verbatim>\<open>continue\<close>); \<open>Inr (Some md)\<close>: the item was
  written and is to be marked processed.
\<close>

definition s3_try ::
  "services \<Rightarrow> config \<Rightarrow> string \<Rightarrow> s3_object \<Rightarrow> string \<Rightarrow> world \<Rightarrow>
   (exn + metadata option) \<times> world" where
  "s3_try sv cfg source_name obj s3_path w =
     (case download_s3_to_dataframe sv s3_path w of
        (Inl e, w) \<Rightarrow> (Inl e, w)
      | (Inr df, w) \<Rightarrow>
          if df_empty df
          then (Inr None, emit (LogWarning (''Empty dataframe for '' @ s3_path @ '', skipping'')) w)
          else (case email_hygiene (normalize_columns df) of
                  Inl e \<Rightarrow> (Inl e, w)
                | Inr df \<Rightarrow>
                    (let filename = before_first (CHR ''.'') (basename (Key obj))
                     in case stamp_and_write sv cfg source_name s3_path filename df w of
                          (Inl e, w) \<Rightarrow> (Inl e, w)
                        | (Inr md, w) \<Rightarrow> (Inr (Some md), w))))"

text \<open>
  One turn of the loop of \<^verbatim>\<open>process_s3_prefix\<close>, on the loop's variables: the manifest
  in memory, the flag \<^verbatim>\<open>new_processed\<close> and the world. An empty \<open>file_ext_filter\<close> stands
  for \<^verbatim>\<open>None\<close> and for the empty list, which the source treats alike.
\<close>

definition s3_item ::
  "services \<Rightarrow> config \<Rightarrow> string \<Rightarrow> string list \<Rightarrow> s3_object \<Rightarrow>
   manifest \<times> bool \<times> world \<Rightarrow> manifest \<times> bool \<times> world" where
  "s3_item sv cfg source_name file_ext_filter obj st =
     (case st of (processed, new_processed, w) \<Rightarrow>
        (let s3_path = ''s3://'' @ Bucket obj @ ''/'' @ Key obj
         in if file_ext_filter \<noteq> [] \<and>
               lower (after_last (CHR ''.'') (Key obj)) \<notin> set file_ext_filter
            then (processed, new_processed, w)
            else if s3_path \<in> set (map fst processed)
            then (processed, new_processed,
                  emit (LogInfo (''Skipping already processed file '' @ s3_path)) w)
            else (case s3_try sv cfg source_name obj s3_path w of
                    (Inl e, w) \<Rightarrow>
                      (processed, new_processed,
                       emit (LogException (''Failed to process '' @ s3_path)) w)
                  | (Inr None, w) \<Rightarrow> (processed, new_processed, w)
                  | (Inr (Some md), w) \<Rightarrow> (AList.update s3_path md processed, True, w))))"

fun s3_loop ::
  "services \<Rightarrow> config \<Rightarrow> string \<Rightarrow> string list \<Rightarrow> s3_object list \<Rightarrow>
   manifest \<times> bool \<times> world \<Rightarrow> manifest \<times> bool \<times> world" where
  "s3_loop sv cfg source_name file_ext_filter [] st = st"
| "s3_loop sv cfg source_name file_ext_filter (obj # objs) st =
     s3_loop sv cfg source_name file_ext_filter objs
       (s3_item sv cfg source_name file_ext_filter obj st)"

definition process_s3_prefix ::
  "services \<Rightarrow> config \<Rightarrow> string \<Rightarrow> string \<Rightarrow> string list \<Rightarrow> world \<Rightarrow> (exn + unit) \<times> world" where
  "process_s3_prefix sv cfg prefix_s3 source_name file_ext_filter w =
     (let w = emit (LogInfo (''Processing prefix '' @ prefix_s3)) w
      in case list_s3_objects sv prefix_s3 of
           Inl e \<Rightarrow> (Inl e, w)
         | Inr objects \<Rightarrow>
             (let (processed, w) = read_processed_manifest sv w
              in case s3_loop sv cfg source_name file_ext_filter objects (processed, False, w) of
                   (processed, new_processed, w) \<Rightarrow>
                     (Inr (), if new_processed then write_processed_manifest sv processed w else w)))"

text \<open>\<^verbatim>\<open>process_google_sheet\<close>: one item, with no \<^verbatim>\<open>try\<close> around its steps.\<close>

definition process_google_sheet ::
  "services \<Rightarrow> config \<Rightarrow> string \<Rightarrow> string \<Rightarrow> string \<Rightarrow> string \<Rightarrow> world \<Rightarrow> (exn + unit) \<times> world" where
  "process_google_sheet sv cfg sheet_id range_name source_name sa_path w =
     (let (processed, w) = read_processed_manifest sv w;
          identifier = ''google_sheets://'' @ sheet_id @ ''/'' @ range_name
      in if identifier \<in> set (map fst processed)
         then (Inr (), emit (LogInfo (''Skipping already processed google sheet '' @ identifier)) w)
         else case extract_google_sheet_to_df sv sheet_id range_name sa_path of
                Inl e \<Rightarrow> (Inl e, w)
              | Inr df \<Rightarrow>
                  if df_empty df
                  then (Inr (), emit (LogWarning (''Empty google sheet '' @ identifier)) w)
                  else (case email_hygiene (normalize_columns df) of
                          Inl e \<Rightarrow> (Inl e, w)
                        | Inr df \<Rightarrow>
                            (case stamp_and_write sv cfg source_name identifier ''agents'' df w of
                               (Inl e, w) \<Rightarrow> (Inl e, w)
                             | (Inr md, w) \<Rightarrow>
                                 (Inr (), write_processed_manifest sv
                                            (AList.update identifier md processed) w))))"

text \<open>The body of the \<^verbatim>\<open>try\<close> of \<^verbatim>\<open>process_postgres_tables\<close> for one table.\<close>

definition pg_try ::
  "services \<Rightarrow> config \<Rightarrow> string \<Rightarrow> (string \<times> string) list \<Rightarrow> string \<Rightarrow> string \<Rightarrow> world \<Rightarrow>
   (exn + metadata option) \<times> world" where
  "pg_try sv cfg source_name creds table identifier w =
     (case extract_postgres_table_to_df sv cfg table creds w of
        (Inl e, w) \<Rightarrow> (Inl e, w)
      | (Inr df, w) \<Rightarrow>
          if df_empty df
          then (Inr None, emit (LogWarning (''Empty table '' @ table @ '', skipping'')) w)
          else (case email_hygiene (normalize_columns df) of
                  Inl e \<Rightarrow> (Inl e, w)
                | Inr df \<Rightarrow>
                    (case stamp_and_write sv cfg source_name identifier table df w of
                       (Inl e, w) \<Rightarrow> (Inl e, w)
                     | (Inr md, w) \<Rightarrow> (Inr (Some md), w))))"

text \<open>
  The loop of \<^verbatim>\<open>process_postgres_tables\<close>. The identifier is built before the \<^verbatim>\<open>try\<close>,
  so a credentials dict without \<^verbatim>\<open>host\<close> or \<^verbatim>\<open>dbname\<close> raises out of the loop.
\<close>

fun pg_loop ::
  "services \<Rightarrow> config \<Rightarrow> string \<Rightarrow> (string \<times> string) list \<Rightarrow> string list \<Rightarrow>
   manifest \<times> world \<Rightarrow> (exn + manifest) \<times> world" where
  "pg_loop sv cfg source_name creds [] (processed, w) = (Inr processed, w)"
| "pg_loop sv cfg source_name creds (table # tables) (processed, w) =
     (case dict_get creds ''host'' of
        Inl e \<Rightarrow> (Inl e, w)
      | Inr host \<Rightarrow>
          (case dict_get creds ''dbname'' of
             Inl e \<Rightarrow> (Inl e, w)
           | Inr dbname \<Rightarrow>
               (let identifier = ''postgres://'' @ host @ ''/'' @ dbname @ ''/'' @ table
                in if identifier \<in> set (map fst processed)
                   then pg_loop sv cfg source_name creds tables
                          (processed,
                           emit (LogInfo (''Skipping already processed table '' @ identifier)) w)
                   else (case pg_try sv cfg source_name creds table identifier w of
                           (Inl e, w) \<Rightarrow>
                             pg_loop sv cfg source_name creds tables
                               (processed, emit (LogException (''Failed to extract table '' @ table)) w)
                         | (Inr None, w) \<Rightarrow> pg_loop sv cfg source_name creds tables (processed, w)
                         | (Inr (Some md), w) \<Rightarrow>
                             pg_loop sv cfg source_name creds tables
                               (AList.update identifier md processed, w)))))"

definition process_postgres_tables ::
  "services \<Rightarrow> config \<Rightarrow> string list \<Rightarrow> string \<Rightarrow> string \<Rightarrow> world \<Rightarrow> (exn + unit) \<times> world" where
  "process_postgres_tables sv cfg table_names ssm_param source_name w =
     (let (processed, w) = read_processed_manifest sv w
      in case get_ssm_param_json sv ssm_param of
           Inl e \<Rightarrow> (Inl e, w)
         | Inr creds \<Rightarrow>
             (case pg_loop sv cfg source_name creds table_names (processed, w) of
                (Inl e, w) \<Rightarrow> (Inl e, w)
              | (Inr processed, w) \<Rightarrow> (Inr (), write_processed_manifest sv processed w)))"

text \<open>
  \<^verbatim>\<open>run_full_ingest\<close>: the five flows in order; an exception that leaves one of them ends
  the run.
\<close>

definition run_full_ingest :: "services \<Rightarrow> config \<Rightarrow> world \<Rightarrow> (exn + unit) \<times> world" where
  "run_full_ingest sv cfg w =
     (case process_s3_prefix sv cfg (CUSTOMERS_S3_PREFIX cfg) ''customers'' [''csv''] w of
        (Inl e, w) \<Rightarrow> (Inl e, w)
      | (Inr u, w) \<Rightarrow>
     (case process_s3_prefix sv cfg (CALL_LOGS_PREFIX cfg) ''call_center_logs'' [''csv''] w of
        (Inl e, w) \<Rightarrow> (Inl e, w)
      | (Inr u, w) \<Rightarrow>
     (case process_s3_prefix sv cfg (SOCIAL_PREFIX cfg) ''social_media'' [''json''] w of
        (Inl e, w) \<Rightarrow> (Inl e, w)
      | (Inr u, w) \<Rightarrow>
     (case process_google_sheet sv cfg (GOOGLE_SHEET_ID cfg) (GOOGLE_SHEET_RANGE cfg) ''agents''
             (GOOGLE_SERVICE_ACCOUNT cfg) w of
        (Inl e, w) \<Rightarrow> (Inl e, w)
      | (Inr u, w) \<Rightarrow>
          (let table_names = filter (\<lambda>t. t \<noteq> [])
                               (map strip (if POSTGRES_TABLES cfg = [] then []
                                           else split_on (CHR '','') (POSTGRES_TABLES cfg)))
           in if table_names \<noteq> []
              then process_postgres_tables sv cfg table_names (POSTGRES_SSM_PARAM cfg) ''web_forms'' w
              else (Inr (), emit (LogInfo ''No Postgres tables configured (set POSTGRES_TABLES env var)'') w))))))"

text \<open>The events that write to durable storage.\<close>

definition is_write :: "event \<Rightarrow> bool" where
  "is_write e = (case e of
       S3UploadFile b k \<Rightarrow> True
     | S3PutObject b k \<Rightarrow> True
     | ManifestFlush \<Rightarrow> True
     | _ \<Rightarrow> False)"


section \<open>Vocabulary of the properties\<close>

text \<open>The identifier of an object, as the loop builds it.\<close>

definition s3_path_of :: "s3_object \<Rightarrow> string" where
  "s3_path_of obj = ''s3://'' @ Bucket obj @ ''/'' @ Key obj"

text \<open>An object that the extension filter lets through.\<close>

definition is_candidate :: "string list \<Rightarrow> s3_object \<Rightarrow> bool" where
  "is_candidate file_ext_filter obj =
     (file_ext_filter = [] \<or> lower (after_last (CHR ''.'') (Key obj)) \<in> set file_ext_filter)"

text \<open>\<^verbatim>\<open>identifier in processed\<close>\<close>

definition already_processed :: "manifest \<Rightarrow> string \<Rightarrow> bool" where
  "already_processed processed identifier = (identifier \<in> set (map fst processed))"

text \<open>
  Two worlds that differ by log lines, reads and sleeps only: the same stored objects,
  manifest document, scratch files and clock readings, and the same writing events.
\<close>

definition only_logged :: "world \<Rightarrow> world \<Rightarrow> bool" where
  "only_logged w w' =
     (bucket_store w' = bucket_store w \<and> manifest_doc w' = manifest_doc w \<and>
      tmp_dir w' = tmp_dir w \<and> ticks w' = ticks w \<and>
      filter is_write (trace w') = filter is_write (trace w))"


section \<open>An example deployment\<close>

text \<open>
  A small deployment on which the properties are exercised: the raw bucket \<^verbatim>\<open>out\<close>, one
  object \<^verbatim>\<open>c/x.csv\<close> under every listed prefix, a one-row frame with an \<^verbatim>\<open>Email\<close> column
  behind every reader, a clock that stays within one second (only the microseconds
  advance), and services that do not fail.
\<close>

definition ex_config :: config where
  "ex_config = \<lparr>
     S3_RAW_BUCKET = ''out'', S3_RAW_PREFIX = ''raw'',
     CUSTOMERS_S3_PREFIX = ''s3://in/c/'',
     CALL_LOGS_PREFIX = ''s3://in/l/'',
     SOCIAL_PREFIX = ''s3://in/s/'',
     GOOGLE_SERVICE_ACCOUNT = ''sa.json'',
     GOOGLE_SHEET_ID = ''ID'',
     GOOGLE_SHEET_RANGE = ''A1:B9'',
     POSTGRES_SSM_PARAM = ''/db'',
     POSTGRES_SCHEMA = ''cc'',
     POSTGRES_TABLES = ''t1''\<rparr>"

definition ex_clock :: "nat \<Rightarrow> datetime" where
  "ex_clock n = \<lparr>year = 2025, month = 11, day = 26, hour = 10, minute = 0, second = 0,
                 microsecond = Suc n\<rparr>"

definition ex_frame :: dataframe where
  "ex_frame = \<lparr>nrows = 1,
                columns = [\<lparr>label = ''Email'', dtype = ''object'', cells = [PyStr ''A@B.co'']\<rparr>]\<rparr>"

definition ex_creds :: "(string \<times> string) list" where
  "ex_creds = [(''host'', ''h''), (''dbname'', ''d''), (''username'', ''u''), (''password'', ''p'')]"

definition ex_services :: services where
  "ex_services = \<lparr>
     utc_clock = ex_clock,
     md5_hexdigest = (\<lambda>s. ''0f''),
     list_objects_v2 = (\<lambda>bucket pfx. Inr [(''c/x.csv'', 10)]),
     get_object = (\<lambda>bucket key k. Inr ''Email,A@B.co''),
     read_csv = (\<lambda>body. Inr ex_frame),
     read_json = (\<lambda>body lines. Inr ex_frame),
     ssm_get_parameter = (\<lambda>name. Inr ex_creds),
     pg_connect = (\<lambda>creds k. None),
     read_sql = (\<lambda>sql k. Inr [ex_frame]),
     concat_frames = (\<lambda>dfs. case dfs of [] \<Rightarrow> empty_frame | df # rest \<Rightarrow> df),
     sheets_values_get = (\<lambda>sa sheet_id range_name. Inr [[''Email''], [''A@B.co'']]),
     frame_of_rows = (\<lambda>rows header. Inr ex_frame),
     write_table_fault = (\<lambda>df. None),
     upload_file_fault = (\<lambda>bucket key. None),
     put_object_fault = (\<lambda>bucket key. None),
     manifest_read_fault = None,
     manifest_write_fault = None\<rparr>"

definition ex_object :: s3_object where
  "ex_object = \<lparr>Bucket = ''in'', Key = ''c/x.csv'', Size = 10\<rparr>"

text \<open>The world before the first run.\<close>

definition empty_world :: world where
  "empty_world = \<lparr>bucket_store = [], manifest_doc = None, tmp_dir = [], ticks = 0, trace = []\<rparr>"


text \<open>The example frame after canonicalization and email cleaning.\<close>

definition ex_clean :: dataframe where
  "ex_clean = \<lparr>nrows = 1,
      columns = [\<lparr>label = ''email'', dtype = ''object'', cells = [PyStr ''a@b.co'']\<rparr>,
                 \<lparr>label = ''email_raw'', dtype = ''object'', cells = [PyStr ''A@B.co'']\<rparr>]\<rparr>"

text \<open>A frame with the two load columns that every flow adds before writing.\<close>

definition stamped :: "dataframe \<Rightarrow> string \<Rightarrow> string \<Rightarrow> dataframe" where
  "stamped df load_time identifier =
     set_scalar (set_scalar df ''_ingest_load_time'' load_time) ''_source_path'' identifier"

text \<open>A frame with a header and no row, and the example services returning it from every reader.\<close>

definition ex_no_rows :: dataframe where
  "ex_no_rows = \<lparr>nrows = 0, columns = [\<lparr>label = ''Email'', dtype = ''object'', cells = []\<rparr>]\<rparr>"

definition ex_services_no_rows :: services where
  "ex_services_no_rows =
     ex_services\<lparr>read_csv := (\<lambda>body. Inr ex_no_rows),
                 read_sql := (\<lambda>sql k. Inr [ex_no_rows]),
                 concat_frames := (\<lambda>dfs. ex_no_rows),
                 sheets_values_get := (\<lambda>sa sheet_id range_name. Inr [[''Email'']]),
                 frame_of_rows := (\<lambda>rows header. Inr ex_no_rows)\<rparr>"

text \<open>The number of attempts that a read of a path has made, by its log lines.\<close>

definition attempts_made :: "string \<Rightarrow> world \<Rightarrow> nat" where
  "attempts_made s3_path w =
     length (filter (\<lambda>e. e = LogInfo (''Reading '' @ s3_path)) (trace w))"

text \<open>What the attempt numbered \<open>k\<close> raises on an object whose extension is not read.\<close>

definition unsupported_error :: "services \<Rightarrow> string \<Rightarrow> string \<Rightarrow> nat \<Rightarrow> exn" where
  "unsupported_error sv bucket key k =
     (case get_object sv bucket key k of
        Inl e \<Rightarrow> e
      | Inr body \<Rightarrow> ValueError (''Unsupported extension: '' @ lower (after_last (CHR ''.'') key)))"




text \<open>The metadata of the example item.\<close>

definition ex_metadata :: metadata where
  "ex_metadata = \<lparr>source = ''customers'', source_path = ''s3://in/c/x.csv'',
                   load_time_utc = ''2025-11-26T10:00:00.000001'', record_count = 1,
                   schema_hash = ''0f''\<rparr>"

text \<open>The example services with a data upload that fails, and with a sidecar upload that fails.\<close>

definition ex_services_upload_down :: services where
  "ex_services_upload_down =
     ex_services\<lparr>upload_file_fault := (\<lambda>bucket key. Some (ServiceError ''upload failed''))\<rparr>"

definition ex_services_sidecar_down :: services where
  "ex_services_sidecar_down =
     ex_services\<lparr>put_object_fault := (\<lambda>bucket key. Some (ServiceError ''put failed''))\<rparr>"

text \<open>The example services with a manifest store that refuses the flush.\<close>

definition ex_services_flush_down :: services where
  "ex_services_flush_down =
     ex_services\<lparr>manifest_write_fault := Some (ServiceError ''manifest store down'')\<rparr>"

text \<open>The world after one pass of the example that starts without a manifest document and cannot flush.\<close>

definition ex_after_pass :: "world \<Rightarrow> world" where
  "ex_after_pass w =
     w\<lparr>ticks := Suc (Suc (Suc (ticks w))),
       bucket_store :=
         AList.update ''s3://out/raw/customers/date=2025-11-26/x_20251126100000.parquet.metadata.json''
           (JsonDoc \<lparr>source = ''customers'', source_path = ''s3://in/c/x.csv'',
              load_time_utc = isoformat (ex_clock (ticks w)), record_count = 1,
              schema_hash = ''0f''\<rparr>)
           (AList.update ''s3://out/raw/customers/date=2025-11-26/x_20251126100000.parquet''
              (ParquetFile (stamped ex_clean (isoformat (ex_clock (ticks w))) ''s3://in/c/x.csv''))
              (bucket_store w)),
       trace := trace w @
         [LogInfo ''Processing prefix s3://in/c/'',
          LogInfo ''Reading s3://in/c/x.csv'', S3GetObject ''in'' ''c/x.csv'',
          S3UploadFile ''out'' ''raw/customers/date=2025-11-26/x_20251126100000.parquet'',
          LogInfo ''Uploaded parquet to s3://out/raw/customers/date=2025-11-26/x_20251126100000.parquet'',
          S3PutObject ''out'' ''raw/customers/date=2025-11-26/x_20251126100000.parquet.metadata.json'',
          LogInfo ''Wrote metadata sidecar s3://out/raw/customers/date=2025-11-26/x_20251126100000.parquet.metadata.json'',
          ManifestFlush, LogException ''Failed to write processed manifest'']\<rparr>"

text \<open>A world whose manifest document already holds the example table.\<close>

definition ex_world_table_done :: world where
  "ex_world_table_done =
     empty_world\<lparr>manifest_doc :=
       Some [(''postgres://h/d/t1'',
              \<lparr>source = ''web_forms'', source_path = ''postgres://h/d/t1'',
                 load_time_utc = ''2025-11-25T09:00:00'', record_count = 1, schema_hash = ''0f''\<rparr>)]\<rparr>"

text \<open>
  The example services with nothing under the listed prefixes and a spreadsheet service
  that is unavailable.
\<close>

definition ex_services_sheet_down :: services where
  "ex_services_sheet_down =
     ex_services\<lparr>list_objects_v2 := (\<lambda>bucket pfx. Inr []),
                 sheets_values_get :=
                   (\<lambda>sa sheet_id range_name. Inl (ServiceError ''sheets unavailable''))\<rparr>"


text \<open>The number of manifest flushes that a world has seen.\<close>

definition flushes :: "world \<Rightarrow> nat" where
  "flushes w = length (filter (\<lambda>e. e = ManifestFlush) (trace w))"


section \<open>Properties of the string functions\<close>








lemma sub_runs_head: "\<not> P c \<Longrightarrow> sub_runs P rep (c # cs) = c # sub_runs P rep cs"
  by simp










text \<open>
  C10. For every value that is not a string (a missing cell, a NaN, a number), email
  cleaning returns null; it raises nothing, so a column holding such values is cleaned
  cell by cell into nulls.
\<close>

theorem clean_email_non_string:
  "\<not> isinstance_str v \<Longrightarrow> clean_email v = PyNone"
  by (cases v) (simp_all add: clean_email_def isinstance_str_def)

theorem clean_email_non_string_witness:
  "\<not> isinstance_str PyNaN \<and> clean_email PyNaN = PyNone \<and>
   map clean_email [PyNaN, PyNone, PyInt 7] = [PyNone, PyNone, PyNone]"
  using clean_email_non_string[of PyNaN] clean_email_non_string[of PyNone]
    clean_email_non_string[of "PyInt 7"]
  by (simp add: isinstance_str_def)

section \<open>Reads and skips leave durable state alone\<close>


lemma only_logged_trans: "only_logged w w' \<Longrightarrow> only_logged w' w'' \<Longrightarrow> only_logged w w''"
  by (simp add: only_logged_def)

lemma only_logged_emit: "\<not> is_write e \<Longrightarrow> only_logged w w' \<Longrightarrow> only_logged w (emit e w')"
  by (simp add: only_logged_def emit_def)

lemma retry_call_only_logged:
  assumes "\<And>k w. only_logged w (snd (attempt k w))"
  shows "only_logged w (snd (retry_call attempt k w))"
  using assms
proof (induction attempt k w rule: retry_call.induct)
  case (1 attempt k w)
  obtain r w' where a: "attempt k w = (r, w')" by (cases "attempt k w")
  from "1.prems"[of w k] a have l: "only_logged w w'" by (metis snd_conv)
  show ?case
  proof (cases r)
    case (Inr v)
    with a l show ?thesis by (simp add: retry_call.simps)
  next
    case (Inl e)
    show ?thesis
    proof (cases "5 \<le> k")
      case True
      with a l Inl show ?thesis by (simp add: retry_call.simps)
    next
      case False
      have s: "only_logged w (emit (Sleep (wait_exponential 1 30 k)) w')"
        using l by (simp add: only_logged_emit is_write_def)
      from "1.IH"[OF a[symmetric] _ False "1.prems", of e] Inl
      have "only_logged (emit (Sleep (wait_exponential 1 30 k)) w')
              (snd (retry_call attempt (Suc k) (emit (Sleep (wait_exponential 1 30 k)) w')))"
        by simp
      with s have "only_logged w (snd (retry_call attempt (Suc k) (emit (Sleep (wait_exponential 1 30 k)) w')))"
        by (rule only_logged_trans)
      with a Inl False show ?thesis by (subst retry_call.simps) simp
    qed
  qed
qed

lemma download_attempt_only_logged: "only_logged w (snd (download_attempt sv p k w))"
  by (auto simp: download_attempt_def Let_def only_logged_def emit_def is_write_def
           split: sum.splits prod.splits exn.splits)

lemma download_only_logged: "only_logged w (snd (download_s3_to_dataframe sv p w))"
  unfolding download_s3_to_dataframe_def
  by (rule retry_call_only_logged) (rule download_attempt_only_logged)

lemma extract_postgres_attempt_only_logged:
  "only_logged w (snd (extract_postgres_attempt sv t creds schema k w))"
  by (auto simp: extract_postgres_attempt_def Let_def only_logged_def emit_def is_write_def
           split: sum.splits option.splits)

lemma extract_postgres_only_logged:
  "only_logged w (snd (extract_postgres_table_to_df sv cfg t creds w))"
  unfolding extract_postgres_table_to_df_def
  by (rule retry_call_only_logged) (rule extract_postgres_attempt_only_logged)

lemma read_manifest_only_logged: "only_logged w (snd (read_processed_manifest sv w))"
  by (auto simp: read_processed_manifest_def only_logged_def emit_def is_write_def
           split: option.splits)




lemma update_keys_distinct: "distinct (map fst m) \<Longrightarrow> distinct (map fst (AList.update k v m))"
  by (simp add: distinct_update)



section \<open>The example deployment, step by step\<close>

lemma ex_split_in: "split_bucket_key ''s3://in/c/'' = Inr (''in'', ''c/'')"
  by code_simp

lemma ex_split_obj: "split_bucket_key ''s3://in/c/x.csv'' = Inr (''in'', ''c/x.csv'')"
  by code_simp


lemma ex_ext: "lower (after_last (CHR ''.'') ''c/x.csv'') = ''csv''"
  by code_simp


lemma ex_hygiene: "email_hygiene (normalize_columns ex_frame) = Inr ex_clean"
  by code_simp

lemma fresh_tmp_ge: "x \<in> set files \<Longrightarrow> x \<le> foldr max files (0::nat)"
  by (induction files) (auto simp: le_max_iff_disj)

lemma fresh_tmp_notin: "fresh_tmp files \<notin> set files"
  using fresh_tmp_ge[of "fresh_tmp files" files] by (auto simp: fresh_tmp_def)

lemma fresh_tmp_removed: "removeAll (fresh_tmp files) files = files"
  using fresh_tmp_notin[of files] by simp

lemma write_parquet_ok:
  assumes "write_table_fault sv df = None" and "split_bucket_key p = Inr (b, k)"
    and "upload_file_fault sv b k = None" and "put_object_fault sv b (k @ ''.metadata.json'') = None"
  shows "write_parquet_to_s3_atomic sv df p md w =
     (Inr (''s3://'' @ b @ ''/'' @ k),
      w\<lparr>bucket_store :=
           AList.update (''s3://'' @ b @ ''/'' @ k @ ''.metadata.json'') (JsonDoc md)
             (AList.update (''s3://'' @ b @ ''/'' @ k) (ParquetFile df) (bucket_store w)),
         trace := trace w @
           [S3UploadFile b k, LogInfo (''Uploaded parquet to s3://'' @ b @ ''/'' @ k),
            S3PutObject b (k @ ''.metadata.json''),
            LogInfo (''Wrote metadata sidecar s3://'' @ b @ ''/'' @ k @ ''.metadata.json'')]\<rparr>)"
  using assms
  by (simp add: write_parquet_to_s3_atomic_def Let_def emit_def fresh_tmp_removed)

lemma ex_pad: "zero_pad 4 2025 = ''2025''" "zero_pad 2 11 = ''11''" "zero_pad 2 26 = ''26''"
  "zero_pad 2 10 = ''10''" "zero_pad 2 0 = ''00''"
  by code_simp+

lemma ex_date: "strftime_date (ex_clock n) = ''2025-11-26''"
  by (simp add: strftime_date_def ex_clock_def ex_pad)

lemma ex_stamp: "strftime_stamp (ex_clock n) = ''20251126100000''"
  by (simp add: strftime_stamp_def ex_clock_def ex_pad)

lemma ex_iso: "isoformat (ex_clock 0) = ''2025-11-26T10:00:00.000001''"
  by code_simp

lemma ex_split_out:
  "split_bucket_key ''s3://out/raw/customers/date=2025-11-26/x_20251126100000.parquet'' =
     Inr (''out'', ''raw/customers/date=2025-11-26/x_20251126100000.parquet'')"
  by code_simp

lemma ex_fields:
  "utc_clock ex_services = ex_clock"
  "md5_hexdigest ex_services s = ''0f''"
  "write_table_fault ex_services df = None"
  "upload_file_fault ex_services b k = None"
  "put_object_fault ex_services b k = None"
  "manifest_read_fault ex_services = None"
  "manifest_write_fault ex_services = None"
  by (simp_all add: ex_services_def)

lemma ex_config_fields:
  "S3_RAW_BUCKET ex_config = ''out''" "S3_RAW_PREFIX ex_config = ''raw''"
  by (simp_all add: ex_config_def)

lemma nrows_set_scalar: "nrows (set_scalar df name v) = nrows df"
  by (simp add: set_scalar_def set_column_def)


lemma ex_object_fields: "Bucket ex_object = ''in''" "Key ex_object = ''c/x.csv''"
  by (simp_all add: ex_object_def)

lemma ex_base: "before_first (CHR ''.'') (basename ''c/x.csv'') = ''x''"
  by code_simp

lemma ex_frame_nonempty: "\<not> df_empty ex_frame"
  by (simp add: df_empty_def ex_frame_def)

section \<open>Idempotent passes\<close>


section \<open>Empty datasets\<close>

lemma snd_only_logged: "f = (r, w') \<Longrightarrow> only_logged w (snd f) \<Longrightarrow> only_logged w w'"
  by simp

lemma s3_item_empty:
  assumes "df_empty df" and "is_candidate flt obj"
    and "\<not> already_processed processed (s3_path_of obj)"
    and "fst (download_s3_to_dataframe sv (s3_path_of obj) w) = Inr df"
  shows "\<exists>w'. s3_item sv cfg src flt obj (processed, np, w) = (processed, np, w') \<and>
           only_logged w w' \<and>
           last (trace w') = LogWarning (''Empty dataframe for '' @ s3_path_of obj @ '', skipping'')"
proof -
  obtain w1 where d: "download_s3_to_dataframe sv (s3_path_of obj) w = (Inr df, w1)"
    using assms(4) by (cases "download_s3_to_dataframe sv (s3_path_of obj) w") auto
  from download_only_logged[of w sv "s3_path_of obj"] d have l: "only_logged w w1" by simp
  let ?w' = "emit (LogWarning (''Empty dataframe for '' @ s3_path_of obj @ '', skipping'')) w1"
  have "s3_item sv cfg src flt obj (processed, np, w) = (processed, np, ?w')"
    using assms(1-3) d
    by (auto simp: s3_item_def Let_def is_candidate_def already_processed_def s3_try_def
          s3_path_of_def)
  moreover have "only_logged w ?w'"
    using l by (simp add: only_logged_emit is_write_def)
  moreover have "last (trace ?w') = LogWarning (''Empty dataframe for '' @ s3_path_of obj @ '', skipping'')"
    by (simp add: emit_def)
  ultimately show ?thesis by blast
qed

lemma pg_loop_empty:
  assumes "df_empty df" and "dict_get creds ''host'' = Inr host"
    and "dict_get creds ''dbname'' = Inr dbname"
    and "\<not> already_processed processed (''postgres://'' @ host @ ''/'' @ dbname @ ''/'' @ table)"
    and "fst (extract_postgres_table_to_df sv cfg table creds w) = Inr df"
  shows "\<exists>w'. pg_loop sv cfg src creds (table # tables) (processed, w) =
                  pg_loop sv cfg src creds tables (processed, w') \<and>
           only_logged w w' \<and>
           last (trace w') = LogWarning (''Empty table '' @ table @ '', skipping'')"
proof -
  obtain w1 where d: "extract_postgres_table_to_df sv cfg table creds w = (Inr df, w1)"
    using assms(5) by (cases "extract_postgres_table_to_df sv cfg table creds w") auto
  from extract_postgres_only_logged[of w sv cfg table creds] d have l: "only_logged w w1" by simp
  let ?w' = "emit (LogWarning (''Empty table '' @ table @ '', skipping'')) w1"
  have "pg_loop sv cfg src creds (table # tables) (processed, w) =
          pg_loop sv cfg src creds tables (processed, ?w')"
    using assms(1-4) d by (simp add: Let_def already_processed_def pg_try_def)
  moreover have "only_logged w ?w'"
    using l by (simp add: only_logged_emit is_write_def)
  moreover have "last (trace ?w') = LogWarning (''Empty table '' @ table @ '', skipping'')"
    by (simp add: emit_def)
  ultimately show ?thesis by blast
qed

lemma sheet_empty:
  assumes "df_empty df"
    and "\<not> already_processed (fst (read_processed_manifest sv w))
             (''google_sheets://'' @ sheet_id @ ''/'' @ range_name)"
    and "extract_google_sheet_to_df sv sheet_id range_name sa = Inr df"
  shows "fst (process_google_sheet sv cfg sheet_id range_name src sa w) = Inr () \<and>
         only_logged w (snd (process_google_sheet sv cfg sheet_id range_name src sa w)) \<and>
         last (trace (snd (process_google_sheet sv cfg sheet_id range_name src sa w))) =
           LogWarning (''Empty google sheet '' @ ''google_sheets://'' @ sheet_id @ ''/'' @ range_name)"
proof -
  obtain m w1 where rd: "read_processed_manifest sv w = (m, w1)"
    by (cases "read_processed_manifest sv w")
  from read_manifest_only_logged[of w sv] rd have l: "only_logged w w1" by simp
  let ?w' = "emit (LogWarning (''Empty google sheet '' @ ''google_sheets://'' @ sheet_id @ ''/'' @ range_name)) w1"
  have "process_google_sheet sv cfg sheet_id range_name src sa w = (Inr (), ?w')"
    using assms rd by (simp add: process_google_sheet_def Let_def already_processed_def)
  moreover have "only_logged w ?w'"
    using l by (simp add: only_logged_emit is_write_def)
  moreover have "last (trace ?w') = LogWarning (''Empty google sheet '' @ ''google_sheets://'' @ sheet_id @ ''/'' @ range_name)"
    by (simp add: emit_def)
  ultimately show ?thesis by simp
qed

text \<open>
  C9. When the extraction of a candidate item yields a dataset with zero rows, the item
  is left without raising: in the object-store loop and in the table loop the manifest in
  memory and the flag are unchanged and the loop goes on; the spreadsheet flow returns
  normally. In each flow the stored objects, the manifest document and the scratch
  directory are as before, no write is attempted, and the last thing done is the warning
  in the log.
\<close>

theorem empty_dataset_skipped:
  assumes "nrows df = 0"
  shows
   "(is_candidate flt obj \<and> \<not> already_processed processed (s3_path_of obj) \<and>
       fst (download_s3_to_dataframe sv (s3_path_of obj) w) = Inr df \<longrightarrow>
     (\<exists>w'. s3_item sv cfg src flt obj (processed, np, w) = (processed, np, w') \<and>
            only_logged w w' \<and>
            last (trace w') = LogWarning (''Empty dataframe for '' @ s3_path_of obj @ '', skipping''))) \<and>
    (dict_get creds ''host'' = Inr host \<and> dict_get creds ''dbname'' = Inr dbname \<and>
       \<not> already_processed processed (''postgres://'' @ host @ ''/'' @ dbname @ ''/'' @ table) \<and>
       fst (extract_postgres_table_to_df sv cfg table creds w) = Inr df \<longrightarrow>
     (\<exists>w'. pg_loop sv cfg src creds (table # tables) (processed, w) =
              pg_loop sv cfg src creds tables (processed, w') \<and>
            only_logged w w' \<and>
            last (trace w') = LogWarning (''Empty table '' @ table @ '', skipping''))) \<and>
    (\<not> already_processed (fst (read_processed_manifest sv w))
          (''google_sheets://'' @ sheet_id @ ''/'' @ range_name) \<and>
       extract_google_sheet_to_df sv sheet_id range_name sa = Inr df \<longrightarrow>
     fst (process_google_sheet sv cfg sheet_id range_name src sa w) = Inr () \<and>
     only_logged w (snd (process_google_sheet sv cfg sheet_id range_name src sa w)) \<and>
     last (trace (snd (process_google_sheet sv cfg sheet_id range_name src sa w))) =
       LogWarning (''Empty google sheet '' @ ''google_sheets://'' @ sheet_id @ ''/'' @ range_name))"
proof -
  from assms have e: "df_empty df" by (simp add: df_empty_def)
  show ?thesis
    using s3_item_empty[OF e, of flt obj processed sv w cfg src np]
      pg_loop_empty[OF e, of creds host dbname processed table sv cfg w src tables]
      sheet_empty[OF e, of sv w sheet_id range_name sa cfg src]
    by blast
qed

lemma ex_no_rows_fields:
  "get_object ex_services_no_rows b k n = Inr ''Email,A@B.co''"
  "read_csv ex_services_no_rows body = Inr ex_no_rows"
  "pg_connect ex_services_no_rows creds n = None"
  "read_sql ex_services_no_rows sql n = Inr [ex_no_rows]"
  "concat_frames ex_services_no_rows dfs = ex_no_rows"
  "sheets_values_get ex_services_no_rows sa i r = Inr [[''Email'']]"
  "frame_of_rows ex_services_no_rows rows header = Inr ex_no_rows"
  "manifest_read_fault ex_services_no_rows = None"
  by (simp_all add: ex_services_no_rows_def ex_services_def)

lemma ex_path: "s3_path_of ex_object = ''s3://in/c/x.csv''"
  by (simp add: s3_path_of_def ex_object_fields)

lemma ex_candidate: "is_candidate [''csv''] ex_object"
  by (simp add: is_candidate_def ex_object_fields ex_ext)

lemma ex_download_no_rows:
  "fst (download_s3_to_dataframe ex_services_no_rows ''s3://in/c/x.csv'' w) = Inr ex_no_rows"
  by (simp add: download_s3_to_dataframe_def retry_call.simps download_attempt_def Let_def
        ex_split_obj startswith_def ex_ext ex_no_rows_fields)

lemma ex_creds_complete:
  "first_missing ex_creds [''host'', ''dbname'', ''username'', ''password''] = None"
  "dict_get ex_creds ''host'' = Inr ''h''" "dict_get ex_creds ''dbname'' = Inr ''d''"
  by (simp_all add: ex_creds_def dict_get_def)

lemma ex_extract_no_rows:
  "fst (extract_postgres_table_to_df ex_services_no_rows ex_config ''t1'' ex_creds w) = Inr ex_no_rows"
  by (simp add: extract_postgres_table_to_df_def retry_call.simps extract_postgres_attempt_def
        Let_def ex_creds_complete ex_no_rows_fields del: first_missing.simps)

lemma ex_sheet_no_rows:
  "extract_google_sheet_to_df ex_services_no_rows ''ID'' ''A1:B9'' ''sa.json'' = Inr ex_no_rows"
  by (simp add: extract_google_sheet_to_df_def ex_no_rows_fields)

lemma ex_empty_manifest: "fst (read_processed_manifest ex_services_no_rows empty_world) = []"
  by (simp add: read_processed_manifest_def ex_no_rows_fields empty_world_def)

theorem empty_dataset_skipped_witness:
  "nrows ex_no_rows = 0 \<and>
   is_candidate [''csv''] ex_object \<and> \<not> already_processed [] (s3_path_of ex_object) \<and>
   fst (download_s3_to_dataframe ex_services_no_rows (s3_path_of ex_object) empty_world) = Inr ex_no_rows \<and>
   (\<exists>w'. s3_item ex_services_no_rows ex_config ''customers'' [''csv''] ex_object ([], False, empty_world) =
            ([], False, w') \<and>
          only_logged empty_world w' \<and>
          last (trace w') = LogWarning (''Empty dataframe for '' @ s3_path_of ex_object @ '', skipping'')) \<and>
   dict_get ex_creds ''host'' = Inr ''h'' \<and> dict_get ex_creds ''dbname'' = Inr ''d'' \<and>
   \<not> already_processed [] (''postgres://'' @ ''h'' @ ''/'' @ ''d'' @ ''/'' @ ''t1'') \<and>
   fst (extract_postgres_table_to_df ex_services_no_rows ex_config ''t1'' ex_creds empty_world) = Inr ex_no_rows \<and>
   (\<exists>w'. pg_loop ex_services_no_rows ex_config ''web_forms'' ex_creds [''t1''] ([], empty_world) =
            (Inr [], w') \<and>
          only_logged empty_world w' \<and>
          last (trace w') = LogWarning (''Empty table '' @ ''t1'' @ '', skipping'')) \<and>
   \<not> already_processed (fst (read_processed_manifest ex_services_no_rows empty_world))
        (''google_sheets://'' @ ''ID'' @ ''/'' @ ''A1:B9'') \<and>
   extract_google_sheet_to_df ex_services_no_rows ''ID'' ''A1:B9'' ''sa.json'' = Inr ex_no_rows \<and>
   fst (process_google_sheet ex_services_no_rows ex_config ''ID'' ''A1:B9'' ''agents'' ''sa.json'' empty_world) = Inr () \<and>
   only_logged empty_world
     (snd (process_google_sheet ex_services_no_rows ex_config ''ID'' ''A1:B9'' ''agents'' ''sa.json'' empty_world)) \<and>
   last (trace (snd (process_google_sheet ex_services_no_rows ex_config ''ID'' ''A1:B9'' ''agents'' ''sa.json'' empty_world))) =
     LogWarning (''Empty google sheet '' @ ''google_sheets://'' @ ''ID'' @ ''/'' @ ''A1:B9'')"
proof -
  have n: "nrows ex_no_rows = 0" by (simp add: ex_no_rows_def)
  have a: "\<not> already_processed [] x" for x by (simp add: already_processed_def)
  have d: "fst (download_s3_to_dataframe ex_services_no_rows (s3_path_of ex_object) empty_world) = Inr ex_no_rows"
    by (simp add: ex_path ex_download_no_rows)
  have m: "\<not> already_processed (fst (read_processed_manifest ex_services_no_rows empty_world))
        (''google_sheets://'' @ ''ID'' @ ''/'' @ ''A1:B9'')"
    by (simp add: ex_empty_manifest already_processed_def)
  have s3: "\<exists>w'. s3_item ex_services_no_rows ex_config ''customers'' [''csv''] ex_object ([], False, empty_world) =
            ([], False, w') \<and>
          only_logged empty_world w' \<and>
          last (trace w') = LogWarning (''Empty dataframe for '' @ s3_path_of ex_object @ '', skipping'')"
    using empty_dataset_skipped[OF n, of "[''csv'']" ex_object "[]" ex_services_no_rows
      empty_world ex_config "''customers''" False] ex_candidate a d by blast
  have "\<exists>w'. pg_loop ex_services_no_rows ex_config ''web_forms'' ex_creds [''t1''] ([], empty_world) =
            pg_loop ex_services_no_rows ex_config ''web_forms'' ex_creds [] ([], w') \<and>
          only_logged empty_world w' \<and>
          last (trace w') = LogWarning (''Empty table '' @ ''t1'' @ '', skipping'')"
    using empty_dataset_skipped[OF n, of _ _ "[]" ex_services_no_rows
      empty_world ex_config "''web_forms''" _ ex_creds "''h''" "''d''" "''t1''" "[]"]
      ex_creds_complete(2,3) a ex_extract_no_rows by blast
  then have pg: "\<exists>w'. pg_loop ex_services_no_rows ex_config ''web_forms'' ex_creds [''t1''] ([], empty_world) =
            (Inr [], w') \<and>
          only_logged empty_world w' \<and>
          last (trace w') = LogWarning (''Empty table '' @ ''t1'' @ '', skipping'')"
    by simp
  have sh: "fst (process_google_sheet ex_services_no_rows ex_config ''ID'' ''A1:B9'' ''agents'' ''sa.json'' empty_world) = Inr () \<and>
   only_logged empty_world
     (snd (process_google_sheet ex_services_no_rows ex_config ''ID'' ''A1:B9'' ''agents'' ''sa.json'' empty_world)) \<and>
   last (trace (snd (process_google_sheet ex_services_no_rows ex_config ''ID'' ''A1:B9'' ''agents'' ''sa.json'' empty_world))) =
     LogWarning (''Empty google sheet '' @ ''google_sheets://'' @ ''ID'' @ ''/'' @ ''A1:B9'')"
    using empty_dataset_skipped[OF n, of _ _ _ ex_services_no_rows
      empty_world ex_config "''agents''" _ _ _ _ _ _ "''ID''" "''A1:B9''" "''sa.json''"]
      m ex_sheet_no_rows by blast
  from n ex_candidate a d s3 ex_creds_complete(2,3) ex_extract_no_rows pg m ex_sheet_no_rows sh
  show ?thesis by blast
qed

section \<open>Unsupported extensions and the retry policy\<close>

lemma download_attempt_unsupported:
  assumes "startswith p ''s3://''" and "split_bucket_key p = Inr (b, key)"
    and "lower (after_last (CHR ''.'') key) \<notin> set [''csv'', ''txt'', ''json'']"
  shows "download_attempt sv p k w =
     (Inl (unsupported_error sv b key k),
      w\<lparr>trace := trace w @ [LogInfo (''Reading '' @ p), S3GetObject b key]\<rparr>)"
  using assms
  by (auto simp: download_attempt_def Let_def emit_def unsupported_error_def split: sum.splits)

lemma wait_values:
  "wait_exponential (Suc 0) 30 (Suc 0) = 1"
  "wait_exponential (Suc 0) 30 (Suc (Suc 0)) = 2"
  "wait_exponential (Suc 0) 30 (Suc (Suc (Suc 0))) = 4"
  "wait_exponential (Suc 0) 30 (Suc (Suc (Suc (Suc 0)))) = 8"
  by (simp_all add: wait_exponential_def)

lemma fifth_attempt: "Suc (Suc (Suc (Suc (Suc 0)))) = 5"
  by simp

lemma download_unsupported:
  assumes "startswith p ''s3://''" and "split_bucket_key p = Inr (b, key)"
    and "lower (after_last (CHR ''.'') key) \<notin> set [''csv'', ''txt'', ''json'']"
  shows "download_s3_to_dataframe sv p w =
     (Inl (RetryError (unsupported_error sv b key 5)),
      w\<lparr>trace := trace w @
          [LogInfo (''Reading '' @ p), S3GetObject b key, Sleep 1,
           LogInfo (''Reading '' @ p), S3GetObject b key, Sleep 2,
           LogInfo (''Reading '' @ p), S3GetObject b key, Sleep 4,
           LogInfo (''Reading '' @ p), S3GetObject b key, Sleep 8,
           LogInfo (''Reading '' @ p), S3GetObject b key]\<rparr>)"
  unfolding download_s3_to_dataframe_def
  by (simp add: retry_call.simps download_attempt_unsupported[OF assms] emit_def wait_values
        fifth_attempt)

text \<open>
  C3, as amended. For an object whose extension is not csv, txt or json the reader never
  returns a dataset: every attempt fetches the object and then fails (with the
  unsupported-extension error when the fetch succeeds), the retry policy retries every
  exception, so five attempts are made with waits of 1, 2, 4 and 8 seconds between them,
  and the call ends in a retry error around the last failure. Nothing durable changes.
\<close>

theorem unsupported_extension_retried:
  assumes "startswith p ''s3://''" and "split_bucket_key p = Inr (b, key)"
    and "lower (after_last (CHR ''.'') key) \<notin> set [''csv'', ''txt'', ''json'']"
  shows "fst (download_s3_to_dataframe sv p w) = Inl (RetryError (unsupported_error sv b key 5)) \<and>
         attempts_made p (snd (download_s3_to_dataframe sv p w)) = attempts_made p w + 5 \<and>
         trace (snd (download_s3_to_dataframe sv p w)) = trace w @
          [LogInfo (''Reading '' @ p), S3GetObject b key, Sleep 1,
           LogInfo (''Reading '' @ p), S3GetObject b key, Sleep 2,
           LogInfo (''Reading '' @ p), S3GetObject b key, Sleep 4,
           LogInfo (''Reading '' @ p), S3GetObject b key, Sleep 8,
           LogInfo (''Reading '' @ p), S3GetObject b key] \<and>
         only_logged w (snd (download_s3_to_dataframe sv p w))"
proof -
  have l: "only_logged w (snd (download_s3_to_dataframe sv p w))"
    by (rule download_only_logged)
  have "fst (download_s3_to_dataframe sv p w) = Inl (RetryError (unsupported_error sv b key 5))"
    and "attempts_made p (snd (download_s3_to_dataframe sv p w)) = attempts_made p w + 5"
    and "trace (snd (download_s3_to_dataframe sv p w)) = trace w @
          [LogInfo (''Reading '' @ p), S3GetObject b key, Sleep 1,
           LogInfo (''Reading '' @ p), S3GetObject b key, Sleep 2,
           LogInfo (''Reading '' @ p), S3GetObject b key, Sleep 4,
           LogInfo (''Reading '' @ p), S3GetObject b key, Sleep 8,
           LogInfo (''Reading '' @ p), S3GetObject b key]"
    by (simp_all add: download_unsupported[OF assms] attempts_made_def)
  with l show ?thesis by blast
qed

lemma ex_split_xml: "split_bucket_key ''s3://in/c/x.xml'' = Inr (''in'', ''c/x.xml'')"
  by code_simp

lemma ex_ext_xml: "lower (after_last (CHR ''.'') ''c/x.xml'') = ''xml''"
  by code_simp

lemma ex_unsupported:
  "unsupported_error ex_services ''in'' ''c/x.xml'' k = ValueError ''Unsupported extension: xml''"
  by (simp add: unsupported_error_def ex_ext_xml ex_services_def)

theorem unsupported_extension_retried_witness:
  "startswith ''s3://in/c/x.xml'' ''s3://'' \<and>
   split_bucket_key ''s3://in/c/x.xml'' = Inr (''in'', ''c/x.xml'') \<and>
   lower (after_last (CHR ''.'') ''c/x.xml'') \<notin> set [''csv'', ''txt'', ''json''] \<and>
   fst (download_s3_to_dataframe ex_services ''s3://in/c/x.xml'' empty_world) =
     Inl (RetryError (ValueError ''Unsupported extension: xml'')) \<and>
   attempts_made ''s3://in/c/x.xml'' (snd (download_s3_to_dataframe ex_services ''s3://in/c/x.xml'' empty_world)) = 5"
proof -
  have a: "startswith ''s3://in/c/x.xml'' ''s3://''" by (simp add: startswith_def)
  have c: "lower (after_last (CHR ''.'') ''c/x.xml'') \<notin> set [''csv'', ''txt'', ''json'']"
    by (simp add: ex_ext_xml)
  have z: "attempts_made ''s3://in/c/x.xml'' empty_world = 0"
    by (simp add: attempts_made_def empty_world_def)
  from unsupported_extension_retried[OF a ex_split_xml c, of ex_services empty_world] a c z
  show ?thesis by (simp add: ex_split_xml ex_unsupported)
qed

text \<open>
  C3, as stated, fails on \<^verbatim>\<open>s3://in/c/x.xml\<close>: the reader does not fail with the
  unsupported-extension error after a single attempt.
\<close>

theorem unsupported_extension_single_attempt_counterexample:
  "\<not> (fst (download_s3_to_dataframe ex_services ''s3://in/c/x.xml'' empty_world) =
        Inl (ValueError ''Unsupported extension: xml'') \<and>
      attempts_made ''s3://in/c/x.xml''
        (snd (download_s3_to_dataframe ex_services ''s3://in/c/x.xml'' empty_world)) = 1)"
proof -
  have a: "startswith ''s3://in/c/x.xml'' ''s3://''" by (simp add: startswith_def)
  have c: "lower (after_last (CHR ''.'') ''c/x.xml'') \<notin> set [''csv'', ''txt'', ''json'']"
    by (simp add: ex_ext_xml)
  from download_unsupported[OF a ex_split_xml c, of ex_services empty_world]
  show ?thesis by (simp add: ex_unsupported)
qed

section \<open>Email cleaning on strings and on columns\<close>




lemma filter_label_map_other:
  "n \<noteq> n' \<Longrightarrow>
   filter (\<lambda>c. label c = n') (map (\<lambda>c. if label c = n then c\<lparr>dtype := dt, cells := v\<rparr> else c) cs) =
   filter (\<lambda>c. label c = n') cs"
  by (induction cs) auto




lemma count_label_set_other:
  "n \<noteq> n' \<Longrightarrow>
   length (filter (\<lambda>c. label c = n') (columns (set_column df n dt v))) =
   length (filter (\<lambda>c. label c = n') (columns df))"
  by (simp add: set_column_def filter_label_map_other)










section \<open>The scratch file of the writer\<close>

lemma write_parquet_failure_leaves_scratch:
  "fst (write_parquet_to_s3_atomic sv df p md w) = Inl e \<Longrightarrow>
   tmp_dir (snd (write_parquet_to_s3_atomic sv df p md w)) = tmp_dir w @ [fresh_tmp (tmp_dir w)]"
  by (auto simp: write_parquet_to_s3_atomic_def Let_def emit_def
           split: option.splits sum.splits prod.splits)

lemma write_parquet_success_removes_scratch:
  "fst (write_parquet_to_s3_atomic sv df p md w) = Inr loc \<Longrightarrow>
   tmp_dir (snd (write_parquet_to_s3_atomic sv df p md w)) = tmp_dir w"
  by (auto simp: write_parquet_to_s3_atomic_def Let_def emit_def fresh_tmp_removed
           split: option.splits sum.splits prod.splits)

lemma ex_down_fields:
  "write_table_fault ex_services_upload_down df = None"
  "upload_file_fault ex_services_upload_down b k = Some (ServiceError ''upload failed'')"
  "write_table_fault ex_services_sidecar_down df = None"
  "upload_file_fault ex_services_sidecar_down b k = None"
  "put_object_fault ex_services_sidecar_down b k = Some (ServiceError ''put failed'')"
  by (simp_all add: ex_services_upload_down_def ex_services_sidecar_down_def ex_services_def)

text \<open>
  C6 says that the scratch file is removed on every path. The writer removes it only
  after the sidecar has been put: when the data upload raises, and when the sidecar
  upload raises, the call ends with the exception and the scratch file (number 1 in an
  empty directory) is still there; in the second case the data file stays in the store
  without its sidecar.
\<close>

theorem scratch_file_left_after_failed_upload:
  "tmp_dir empty_world = [] \<and>
   fst (write_parquet_to_s3_atomic ex_services_upload_down ex_clean
          ''s3://out/raw/customers/date=2025-11-26/x_20251126100000.parquet'' ex_metadata empty_world) =
     Inl (ServiceError ''upload failed'') \<and>
   tmp_dir (snd (write_parquet_to_s3_atomic ex_services_upload_down ex_clean
          ''s3://out/raw/customers/date=2025-11-26/x_20251126100000.parquet'' ex_metadata empty_world)) =
     [1] \<and>
   fst (write_parquet_to_s3_atomic ex_services_sidecar_down ex_clean
          ''s3://out/raw/customers/date=2025-11-26/x_20251126100000.parquet'' ex_metadata empty_world) =
     Inl (ServiceError ''put failed'') \<and>
   tmp_dir (snd (write_parquet_to_s3_atomic ex_services_sidecar_down ex_clean
          ''s3://out/raw/customers/date=2025-11-26/x_20251126100000.parquet'' ex_metadata empty_world)) =
     [1] \<and>
   map fst (bucket_store (snd (write_parquet_to_s3_atomic ex_services_sidecar_down ex_clean
          ''s3://out/raw/customers/date=2025-11-26/x_20251126100000.parquet'' ex_metadata empty_world))) =
     [''s3://out/raw/customers/date=2025-11-26/x_20251126100000.parquet'']"
  by (simp add: write_parquet_to_s3_atomic_def Let_def ex_split_out ex_down_fields emit_def
        empty_world_def fresh_tmp_def)

section \<open>Output keys within one second\<close>

lemma download_first_attempt:
  assumes "startswith p ''s3://''" and "split_bucket_key p = Inr (b, k)"
    and "lower (after_last (CHR ''.'') k) \<in> set [''csv'', ''txt'']"
    and "get_object sv b k 1 = Inr body" and "read_csv sv body = Inr df"
  shows "download_s3_to_dataframe sv p w =
           (Inr df, w\<lparr>trace := trace w @ [LogInfo (''Reading '' @ p), S3GetObject b k]\<rparr>)"
  using assms
  by (simp add: download_s3_to_dataframe_def retry_call.simps download_attempt_def Let_def emit_def)

lemma stamp_and_write_ok:
  assumes "split_bucket_key
             (''s3://'' @ S3_RAW_BUCKET cfg @ ''/'' @
              output_key cfg src (strftime_date (utc_clock sv (Suc (ticks w)))) base
                (utc_clock sv (Suc (Suc (ticks w))))) = Inr (b, k)"
    and "write_table_fault sv (stamped df (isoformat (utc_clock sv (ticks w))) identifier) = None"
    and "upload_file_fault sv b k = None"
    and "put_object_fault sv b (k @ ''.metadata.json'') = None"
  shows "stamp_and_write sv cfg src identifier base df w =
     (Inr \<lparr>source = src, source_path = identifier,
            load_time_utc = isoformat (utc_clock sv (ticks w)), record_count = nrows df,
            schema_hash = hash_df_schema sv (stamped df (isoformat (utc_clock sv (ticks w))) identifier)\<rparr>,
      w\<lparr>ticks := Suc (Suc (Suc (ticks w))),
         bucket_store :=
           AList.update (''s3://'' @ b @ ''/'' @ k @ ''.metadata.json'')
             (JsonDoc \<lparr>source = src, source_path = identifier,
                load_time_utc = isoformat (utc_clock sv (ticks w)), record_count = nrows df,
                schema_hash = hash_df_schema sv (stamped df (isoformat (utc_clock sv (ticks w))) identifier)\<rparr>)
             (AList.update (''s3://'' @ b @ ''/'' @ k)
                (ParquetFile (stamped df (isoformat (utc_clock sv (ticks w))) identifier))
                (bucket_store w)),
         trace := trace w @
           [S3UploadFile b k, LogInfo (''Uploaded parquet to s3://'' @ b @ ''/'' @ k),
            S3PutObject b (k @ ''.metadata.json''),
            LogInfo (''Wrote metadata sidecar s3://'' @ b @ ''/'' @ k @ ''.metadata.json'')]\<rparr>)"
  using assms
  by (simp add: stamp_and_write_def utcnow_def Let_def write_parquet_ok nrows_set_scalar
        stamped_def)

lemma s3_item_commit:
  assumes "is_candidate flt obj" and "\<not> already_processed processed (s3_path_of obj)"
    and "download_s3_to_dataframe sv (s3_path_of obj) w = (Inr df, w1)"
    and "\<not> df_empty df" and "email_hygiene (normalize_columns df) = Inr df'"
    and "stamp_and_write sv cfg src (s3_path_of obj)
           (before_first (CHR ''.'') (basename (Key obj))) df' w1 = (Inr md, w2)"
  shows "s3_item sv cfg src flt obj (processed, np, w) =
           (AList.update (s3_path_of obj) md processed, True, w2)"
  using assms
  by (auto simp: s3_item_def Let_def is_candidate_def already_processed_def s3_try_def
        s3_path_of_def)

lemma ex_flush_down_fields:
  "utc_clock ex_services_flush_down = ex_clock"
  "md5_hexdigest ex_services_flush_down s = ''0f''"
  "list_objects_v2 ex_services_flush_down b p = Inr [(''c/x.csv'', 10)]"
  "get_object ex_services_flush_down b k n = Inr ''Email,A@B.co''"
  "read_csv ex_services_flush_down body = Inr ex_frame"
  "write_table_fault ex_services_flush_down df = None"
  "upload_file_fault ex_services_flush_down b k = None"
  "put_object_fault ex_services_flush_down b k = None"
  "manifest_read_fault ex_services_flush_down = None"
  "manifest_write_fault ex_services_flush_down = Some (ServiceError ''manifest store down'')"
  by (simp_all add: ex_services_flush_down_def ex_services_def)

lemma ex_output_key:
  "''s3://'' @ S3_RAW_BUCKET ex_config @ ''/'' @
     output_key ex_config ''customers'' (strftime_date (ex_clock n)) ''x'' (ex_clock m) =
   ''s3://out/raw/customers/date=2025-11-26/x_20251126100000.parquet''"
  by (simp add: output_key_def ex_date ex_stamp ex_config_fields)

lemma ex_list_flush_down: "list_s3_objects ex_services_flush_down ''s3://in/c/'' = Inr [ex_object]"
  by (simp add: list_s3_objects_def ex_split_in startswith_def ex_flush_down_fields ex_object_def)

lemma ex_pass_flush_down:
  assumes "manifest_doc w = None"
  shows "process_s3_prefix ex_services_flush_down ex_config ''s3://in/c/'' ''customers'' [''csv''] w =
           (Inr (), ex_after_pass w)"
proof -
  let ?w0 = "emit (LogInfo (''Processing prefix '' @ ''s3://in/c/'')) w"
  let ?w1 = "?w0\<lparr>trace := trace ?w0 @ [LogInfo (''Reading '' @ ''s3://in/c/x.csv''), S3GetObject ''in'' ''c/x.csv'']\<rparr>"
  have rd: "read_processed_manifest ex_services_flush_down ?w0 = ([], ?w0)"
    using assms by (simp add: read_processed_manifest_def ex_flush_down_fields emit_def)
  have d: "download_s3_to_dataframe ex_services_flush_down (s3_path_of ex_object) ?w0 = (Inr ex_frame, ?w1)"
    unfolding ex_path
    by (rule download_first_attempt[where body="''Email,A@B.co''"])
       (simp_all add: startswith_def ex_split_obj ex_ext ex_flush_down_fields)
  have sw: "stamp_and_write ex_services_flush_down ex_config ''customers'' (s3_path_of ex_object)
       (before_first (CHR ''.'') (basename (Key ex_object))) ex_clean ?w1 =
     (Inr \<lparr>source = ''customers'', source_path = ''s3://in/c/x.csv'',
            load_time_utc = isoformat (ex_clock (ticks w)), record_count = 1,
            schema_hash = ''0f''\<rparr>,
      ?w1\<lparr>ticks := Suc (Suc (Suc (ticks w))),
         bucket_store :=
           AList.update ''s3://out/raw/customers/date=2025-11-26/x_20251126100000.parquet.metadata.json''
             (JsonDoc \<lparr>source = ''customers'', source_path = ''s3://in/c/x.csv'',
                load_time_utc = isoformat (ex_clock (ticks w)), record_count = 1,
                schema_hash = ''0f''\<rparr>)
             (AList.update ''s3://out/raw/customers/date=2025-11-26/x_20251126100000.parquet''
                (ParquetFile (stamped ex_clean (isoformat (ex_clock (ticks w))) ''s3://in/c/x.csv''))
                (bucket_store w)),
         trace := trace ?w1 @
           [S3UploadFile ''out'' ''raw/customers/date=2025-11-26/x_20251126100000.parquet'',
            LogInfo ''Uploaded parquet to s3://out/raw/customers/date=2025-11-26/x_20251126100000.parquet'',
            S3PutObject ''out'' ''raw/customers/date=2025-11-26/x_20251126100000.parquet.metadata.json'',
            LogInfo ''Wrote metadata sidecar s3://out/raw/customers/date=2025-11-26/x_20251126100000.parquet.metadata.json'']\<rparr>)"
  proof -
    have sp: "split_bucket_key
             (''s3://'' @ S3_RAW_BUCKET ex_config @ ''/'' @
              output_key ex_config ''customers''
                (strftime_date (utc_clock ex_services_flush_down (Suc (ticks ?w1)))) ''x''
                (utc_clock ex_services_flush_down (Suc (Suc (ticks ?w1))))) =
           Inr (''out'', ''raw/customers/date=2025-11-26/x_20251126100000.parquet'')"
      by (simp only: ex_flush_down_fields ex_output_key ex_split_out)
    show ?thesis
      using stamp_and_write_ok[OF sp, of ex_clean "''s3://in/c/x.csv''"]
      by (simp add: ex_flush_down_fields ex_path ex_object_fields ex_base
            emit_def hash_df_schema_def ex_clean_def)
  qed
  have a: "\<not> already_processed [] (s3_path_of ex_object)" by (simp add: already_processed_def)
  note it = s3_item_commit[OF ex_candidate a d ex_frame_nonempty ex_hygiene sw, of False]
  show ?thesis
    apply (simp only: process_s3_prefix_def Let_def ex_list_flush_down sum.case rd prod.case
             s3_loop.simps it)
    apply (simp add: write_processed_manifest_def ex_flush_down_fields emit_def ex_after_pass_def)
    done
qed

lemma ex_iso3: "isoformat (ex_clock (Suc (Suc (Suc 0)))) = ''2025-11-26T10:00:00.000004''"
  by code_simp

lemma output_key_ignores_microseconds:
  "output_key cfg src d base (t\<lparr>microsecond := us\<rparr>) = output_key cfg src d base t"
  by (simp add: output_key_def strftime_stamp_def)

lemma ex_two_passes:
  "process_s3_prefix ex_services_flush_down ex_config ''s3://in/c/'' ''customers'' [''csv''] empty_world =
     (Inr (), ex_after_pass empty_world)"
  "process_s3_prefix ex_services_flush_down ex_config ''s3://in/c/'' ''customers'' [''csv'']
     (ex_after_pass empty_world) = (Inr (), ex_after_pass (ex_after_pass empty_world))"
  by (rule ex_pass_flush_down, simp add: empty_world_def ex_after_pass_def)+

text \<open>
  C2 says that two write invocations for a source item, even within one second, build
  two distinct output keys, so that no committed artifact is overwritten. The key is
  built from the clock at second resolution: it does not depend on the microseconds.
  In the example the first pass commits \<^verbatim>\<open>c/x.csv\<close> and loses its manifest flush, and a
  second pass within the same second ingests the item again under the same key: two
  uploads, one stored artifact, the first one (load time \<^verbatim>\<open>.000001\<close>) replaced by the
  second (load time \<^verbatim>\<open>.000004\<close>).
\<close>

theorem same_second_writes_collide:
  "(\<forall>cfg src d base t us.
      output_key cfg src d base (t\<lparr>microsecond := us\<rparr>) = output_key cfg src d base t) \<and>
   map_of (bucket_store (snd (process_s3_prefix ex_services_flush_down ex_config ''s3://in/c/''
        ''customers'' [''csv''] empty_world)))
     ''s3://out/raw/customers/date=2025-11-26/x_20251126100000.parquet'' =
     Some (ParquetFile (stamped ex_clean ''2025-11-26T10:00:00.000001'' ''s3://in/c/x.csv'')) \<and>
   map_of (bucket_store (snd (process_s3_prefix ex_services_flush_down ex_config ''s3://in/c/''
        ''customers'' [''csv'']
        (snd (process_s3_prefix ex_services_flush_down ex_config ''s3://in/c/''
           ''customers'' [''csv''] empty_world)))))
     ''s3://out/raw/customers/date=2025-11-26/x_20251126100000.parquet'' =
     Some (ParquetFile (stamped ex_clean ''2025-11-26T10:00:00.000004'' ''s3://in/c/x.csv'')) \<and>
   map fst (bucket_store (snd (process_s3_prefix ex_services_flush_down ex_config ''s3://in/c/''
        ''customers'' [''csv'']
        (snd (process_s3_prefix ex_services_flush_down ex_config ''s3://in/c/''
           ''customers'' [''csv''] empty_world))))) =
     [''s3://out/raw/customers/date=2025-11-26/x_20251126100000.parquet'',
      ''s3://out/raw/customers/date=2025-11-26/x_20251126100000.parquet.metadata.json''] \<and>
   length (filter (\<lambda>e. e = S3UploadFile ''out'' ''raw/customers/date=2025-11-26/x_20251126100000.parquet'')
     (trace (snd (process_s3_prefix ex_services_flush_down ex_config ''s3://in/c/''
        ''customers'' [''csv'']
        (snd (process_s3_prefix ex_services_flush_down ex_config ''s3://in/c/''
           ''customers'' [''csv''] empty_world)))))) = 2 \<and>
   stamped ex_clean ''2025-11-26T10:00:00.000001'' ''s3://in/c/x.csv'' \<noteq>
   stamped ex_clean ''2025-11-26T10:00:00.000004'' ''s3://in/c/x.csv''"
proof -
  have k: "\<forall>cfg src d base t us.
      output_key cfg src d base (t\<lparr>microsecond := us\<rparr>) = output_key cfg src d base t"
    by (simp add: output_key_ignores_microseconds)
  have d: "stamped ex_clean ''2025-11-26T10:00:00.000001'' ''s3://in/c/x.csv'' \<noteq>
           stamped ex_clean ''2025-11-26T10:00:00.000004'' ''s3://in/c/x.csv''"
    by (simp add: stamped_def set_scalar_def set_column_def has_column_def ex_clean_def)
  have t0: "ticks empty_world = 0" "bucket_store empty_world = []" "trace empty_world = []"
    by (simp_all add: empty_world_def)
  have s: "map_of (bucket_store (ex_after_pass empty_world))
     ''s3://out/raw/customers/date=2025-11-26/x_20251126100000.parquet'' =
     Some (ParquetFile (stamped ex_clean ''2025-11-26T10:00:00.000001'' ''s3://in/c/x.csv''))"
    "map_of (bucket_store (ex_after_pass (ex_after_pass empty_world)))
     ''s3://out/raw/customers/date=2025-11-26/x_20251126100000.parquet'' =
     Some (ParquetFile (stamped ex_clean ''2025-11-26T10:00:00.000004'' ''s3://in/c/x.csv''))"
    "map fst (bucket_store (ex_after_pass (ex_after_pass empty_world))) =
     [''s3://out/raw/customers/date=2025-11-26/x_20251126100000.parquet'',
      ''s3://out/raw/customers/date=2025-11-26/x_20251126100000.parquet.metadata.json'']"
    "length (filter (\<lambda>e. e = S3UploadFile ''out'' ''raw/customers/date=2025-11-26/x_20251126100000.parquet'')
       (trace (ex_after_pass (ex_after_pass empty_world)))) = 2"
    by (simp_all add: ex_after_pass_def t0 ex_iso ex_iso3)
  from k d s show ?thesis by (simp only: ex_two_passes snd_conv) blast
qed

section \<open>Flows without the guards of the object-store flow\<close>

lemma ex_pg_fields:
  "ssm_get_parameter ex_services name = Inr ex_creds"
  by (simp add: ex_services_def)

text \<open>
  C5 says that the flush is not called when every candidate of a batch was skipped. The
  object-store flow keeps a flag for that; the table flow flushes unconditionally: with
  the one configured table already in the manifest, the pass skips it and still calls
  the flush, its only write.
\<close>

theorem postgres_flushes_after_skipping_everything:
  "fst (read_processed_manifest ex_services ex_world_table_done) =
     [(''postgres://h/d/t1'',
       \<lparr>source = ''web_forms'', source_path = ''postgres://h/d/t1'',
          load_time_utc = ''2025-11-25T09:00:00'', record_count = 1, schema_hash = ''0f''\<rparr>)] \<and>
   fst (process_postgres_tables ex_services ex_config [''t1''] ''/db'' ''web_forms'' ex_world_table_done) =
     Inr () \<and>
   trace (snd (process_postgres_tables ex_services ex_config [''t1''] ''/db'' ''web_forms'' ex_world_table_done)) =
     [LogInfo ''Skipping already processed table postgres://h/d/t1'',
      ManifestFlush, LogInfo ''Wrote processed manifest''] \<and>
   filter is_write
     (trace (snd (process_postgres_tables ex_services ex_config [''t1''] ''/db'' ''web_forms'' ex_world_table_done))) =
     [ManifestFlush]"
  by (simp add: process_postgres_tables_def read_processed_manifest_def ex_fields
        ex_world_table_done_def empty_world_def get_ssm_param_json_def ex_pg_fields
        ex_creds_complete Let_def emit_def write_processed_manifest_def is_write_def)

lemma ex_sheet_down_fields:
  "list_objects_v2 ex_services_sheet_down b p = Inr []"
  "sheets_values_get ex_services_sheet_down sa i r = Inl (ServiceError ''sheets unavailable'')"
  "manifest_read_fault ex_services_sheet_down = None"
  by (simp_all add: ex_services_sheet_down_def ex_services_def)

lemma ex_splits:
  "split_bucket_key ''s3://in/l/'' = Inr (''in'', ''l/'')"
  "split_bucket_key ''s3://in/s/'' = Inr (''in'', ''s/'')"
  by code_simp+

lemma ex_lists_sheet_down:
  "list_s3_objects ex_services_sheet_down ''s3://in/c/'' = Inr []"
  "list_s3_objects ex_services_sheet_down ''s3://in/l/'' = Inr []"
  "list_s3_objects ex_services_sheet_down ''s3://in/s/'' = Inr []"
  by (simp_all add: list_s3_objects_def ex_split_in ex_splits startswith_def ex_sheet_down_fields)

lemma process_s3_prefix_nothing_listed:
  assumes "list_s3_objects sv p = Inr []" and "manifest_read_fault sv = None"
  shows "process_s3_prefix sv cfg p src flt w = (Inr (), emit (LogInfo (''Processing prefix '' @ p)) w)"
  using assms
  by (simp add: process_s3_prefix_def Let_def read_processed_manifest_def split: option.splits)

lemma ex_config_prefixes:
  "CUSTOMERS_S3_PREFIX ex_config = ''s3://in/c/''" "CALL_LOGS_PREFIX ex_config = ''s3://in/l/''"
  "SOCIAL_PREFIX ex_config = ''s3://in/s/''" "GOOGLE_SHEET_ID ex_config = ''ID''"
  "GOOGLE_SHEET_RANGE ex_config = ''A1:B9''" "GOOGLE_SERVICE_ACCOUNT ex_config = ''sa.json''"
  "POSTGRES_TABLES ex_config = ''t1''"
  by (simp_all add: ex_config_def)

lemma process_google_sheet_raises:
  assumes "\<not> already_processed (fst (read_processed_manifest sv w))
             (''google_sheets://'' @ sheet_id @ ''/'' @ range_name)"
    and "extract_google_sheet_to_df sv sheet_id range_name sa = Inl e"
  shows "process_google_sheet sv cfg sheet_id range_name src sa w =
           (Inl e, snd (read_processed_manifest sv w))"
  using assms
  by (cases "read_processed_manifest sv w")
     (simp add: process_google_sheet_def Let_def already_processed_def)

text \<open>
  C4 says that no failure of a per-item chain leaves the flow it belongs to. The
  spreadsheet flow has no \<^verbatim>\<open>try\<close>: when the spreadsheet service is unavailable, the
  exception leaves \<^verbatim>\<open>process_google_sheet\<close> and ends \<^verbatim>\<open>run_full_ingest\<close>, and the
  configured table \<^verbatim>\<open>t1\<close> is never extracted.
\<close>

theorem spreadsheet_failure_aborts_run:
  "fst (process_google_sheet ex_services_sheet_down ex_config ''ID'' ''A1:B9'' ''agents'' ''sa.json'' empty_world) =
     Inl (ServiceError ''sheets unavailable'') \<and>
   POSTGRES_TABLES ex_config = ''t1'' \<and>
   fst (run_full_ingest ex_services_sheet_down ex_config empty_world) =
     Inl (ServiceError ''sheets unavailable'') \<and>
   trace (snd (run_full_ingest ex_services_sheet_down ex_config empty_world)) =
     [LogInfo ''Processing prefix s3://in/c/'', LogInfo ''Processing prefix s3://in/l/'',
      LogInfo ''Processing prefix s3://in/s/''] \<and>
   LogInfo ''Extracting Postgres table t1'' \<notin>
     set (trace (snd (run_full_ingest ex_services_sheet_down ex_config empty_world)))"
proof -
  have x: "extract_google_sheet_to_df ex_services_sheet_down ''ID'' ''A1:B9'' ''sa.json'' =
        Inl (ServiceError ''sheets unavailable'')"
    by (simp add: extract_google_sheet_to_df_def ex_sheet_down_fields)
  have m: "read_processed_manifest ex_services_sheet_down w = (case manifest_doc w of None \<Rightarrow> ([], w) | Some m \<Rightarrow> (m, w))" for w
    by (simp add: read_processed_manifest_def ex_sheet_down_fields)
  have g: "manifest_doc w = None \<Longrightarrow>
      process_google_sheet ex_services_sheet_down ex_config ''ID'' ''A1:B9'' ''agents'' ''sa.json'' w =
        (Inl (ServiceError ''sheets unavailable''), w)" for w
    using process_google_sheet_raises[of ex_services_sheet_down w "''ID''" "''A1:B9''" "''sa.json''"
        "ServiceError ''sheets unavailable''" ex_config "''agents''"] x
    by (simp add: m already_processed_def)
  have r: "run_full_ingest ex_services_sheet_down ex_config empty_world =
      (Inl (ServiceError ''sheets unavailable''),
       emit (LogInfo (''Processing prefix '' @ ''s3://in/s/''))
         (emit (LogInfo (''Processing prefix '' @ ''s3://in/l/''))
           (emit (LogInfo (''Processing prefix '' @ ''s3://in/c/'')) empty_world)))"
    by (simp only: run_full_ingest_def ex_config_prefixes
          process_s3_prefix_nothing_listed[OF ex_lists_sheet_down(1) ex_sheet_down_fields(3)]
          process_s3_prefix_nothing_listed[OF ex_lists_sheet_down(2) ex_sheet_down_fields(3)]
          process_s3_prefix_nothing_listed[OF ex_lists_sheet_down(3) ex_sheet_down_fields(3)]
          prod.case sum.case)
       (simp add: g emit_def empty_world_def)
  have g0: "fst (process_google_sheet ex_services_sheet_down ex_config ''ID'' ''A1:B9'' ''agents'' ''sa.json'' empty_world) =
     Inl (ServiceError ''sheets unavailable'')"
    by (simp add: g empty_world_def)
  have tr: "trace (emit (LogInfo (''Processing prefix '' @ ''s3://in/s/''))
         (emit (LogInfo (''Processing prefix '' @ ''s3://in/l/''))
           (emit (LogInfo (''Processing prefix '' @ ''s3://in/c/'')) empty_world))) =
     [LogInfo ''Processing prefix s3://in/c/'', LogInfo ''Processing prefix s3://in/l/'',
      LogInfo ''Processing prefix s3://in/s/'']"
    by (simp add: emit_def empty_world_def)
  show ?thesis
    unfolding r g0 snd_conv fst_conv tr
    by (simp add: ex_config_prefixes)
qed

section \<open>Committed items are skipped\<close>






section \<open>Isolation and flushes in the loops\<close>

lemma keys_update: "fst ` set (AList.update k v m) = insert k (fst ` set m)"
  using dom_update[of k v m] by auto

lemma s3_item_keeps_keys:
  "already_processed processed k \<Longrightarrow>
   already_processed (fst (s3_item sv cfg src flt obj (processed, np, w))) k"
  by (auto simp: s3_item_def Let_def already_processed_def keys_update
           split: prod.splits sum.splits option.splits)

lemma s3_loop_keeps_keys:
  "already_processed (fst st) k \<Longrightarrow> already_processed (fst (s3_loop sv cfg src flt objects st)) k"
proof (induction objects arbitrary: st)
  case Nil
  then show ?case by simp
next
  case (Cons obj objects)
  obtain p np w where st: "st = (p, np, w)" by (cases st)
  with Cons.prems have "already_processed (fst (s3_item sv cfg src flt obj st)) k"
    by (simp add: s3_item_keeps_keys)
  from Cons.IH[OF this] show ?case by simp
qed

lemma s3_item_commits_when_chain_succeeds:
  assumes "is_candidate flt obj"
    and "download_s3_to_dataframe sv (s3_path_of obj) w = (Inr df, w1)"
    and "\<not> df_empty df" and "email_hygiene (normalize_columns df) = Inr df'"
    and "stamp_and_write sv cfg src (s3_path_of obj)
           (before_first (CHR ''.'') (basename (Key obj))) df' w1 = (Inr md, w2)"
  shows "already_processed (fst (s3_item sv cfg src flt obj (processed, np, w))) (s3_path_of obj)"
proof (cases "already_processed processed (s3_path_of obj)")
  case True
  then show ?thesis by (rule s3_item_keeps_keys)
next
  case False
  from s3_item_commit[OF assms(1) False assms(2-5), of np]
  show ?thesis by (simp add: already_processed_def keys_update)
qed

text \<open>
  Isolation in the object-store loop: an object whose own chain succeeds in whatever
  world it is started ends as a key of the manifest, whatever the other objects of the
  listing do (fail in extraction, in cleaning or in writing, or be empty).
\<close>

lemma s3_loop_isolates_failures:
  assumes "obj \<in> set objects" and "is_candidate flt obj"
    and "\<And>w. \<exists>df w1 df' md w2.
           download_s3_to_dataframe sv (s3_path_of obj) w = (Inr df, w1) \<and>
           \<not> df_empty df \<and> email_hygiene (normalize_columns df) = Inr df' \<and>
           stamp_and_write sv cfg src (s3_path_of obj)
             (before_first (CHR ''.'') (basename (Key obj))) df' w1 = (Inr md, w2)"
  shows "already_processed (fst (s3_loop sv cfg src flt objects st)) (s3_path_of obj)"
  using assms(1)
proof (induction objects arbitrary: st)
  case Nil
  then show ?case by simp
next
  case (Cons x objects)
  obtain p np w where st: "st = (p, np, w)" by (cases st)
  show ?case
  proof (cases "x = obj")
    case True
    from assms(3)[of w] obtain df w1 df' md w2 where
      c: "download_s3_to_dataframe sv (s3_path_of obj) w = (Inr df, w1)"
         "\<not> df_empty df" "email_hygiene (normalize_columns df) = Inr df'"
         "stamp_and_write sv cfg src (s3_path_of obj)
             (before_first (CHR ''.'') (basename (Key obj))) df' w1 = (Inr md, w2)"
      by blast
    from s3_item_commits_when_chain_succeeds[OF assms(2) c, of p np]
    have "already_processed (fst (s3_item sv cfg src flt obj st)) (s3_path_of obj)"
      by (simp add: st)
    from s3_loop_keeps_keys[OF this] True show ?thesis by simp
  next
    case False
    with Cons.prems have "obj \<in> set objects" by simp
    from Cons.IH[OF this] show ?thesis by simp
  qed
qed

lemma only_logged_flushes: "only_logged w w' \<Longrightarrow> flushes w' = flushes w"
proof -
  assume "only_logged w w'"
  then have e: "filter is_write (trace w') = filter is_write (trace w)"
    by (simp add: only_logged_def)
  have f: "filter (\<lambda>e. e = ManifestFlush) xs = filter (\<lambda>e. e = ManifestFlush) (filter is_write xs)" for xs
    by (induction xs) (auto simp: is_write_def)
  show ?thesis
    unfolding flushes_def by (subst f, subst (2) f) (simp add: e)
qed

lemma write_parquet_flushes: "flushes (snd (write_parquet_to_s3_atomic sv df p md w)) = flushes w"
  by (auto simp: write_parquet_to_s3_atomic_def Let_def emit_def flushes_def
           split: option.splits sum.splits prod.splits)

lemma stamp_and_write_flushes:
  "flushes (snd (stamp_and_write sv cfg src identifier base df w)) = flushes w"
proof -
  have t: "flushes (w\<lparr>ticks := n\<rparr>) = flushes w" for n by (simp add: flushes_def)
  show ?thesis
    using write_parquet_flushes
    by (auto simp: stamp_and_write_def Let_def utcnow_def t split: prod.splits sum.splits)
       (metis snd_conv t)+
qed

lemma emit_flushes: "e \<noteq> ManifestFlush \<Longrightarrow> flushes (emit e w) = flushes w"
  by (simp add: flushes_def emit_def)

lemma s3_try_flushes: "flushes (snd (s3_try sv cfg src obj p w)) = flushes w"
proof -
  obtain r w1 where d: "download_s3_to_dataframe sv p w = (r, w1)"
    by (cases "download_s3_to_dataframe sv p w")
  from download_only_logged[of w sv p] d have f1: "flushes w1 = flushes w"
    by (simp add: only_logged_flushes)
  show ?thesis
  proof (cases r)
    case (Inl e)
    with d f1 show ?thesis by (simp add: s3_try_def)
  next
    case (Inr df)
    show ?thesis
    proof (cases "df_empty df")
      case True
      with d Inr f1 show ?thesis by (simp add: s3_try_def emit_flushes)
    next
      case False
      show ?thesis
      proof (cases "email_hygiene (normalize_columns df)")
        case (Inl e)
        with d Inr False f1 show ?thesis by (simp add: s3_try_def)
      next
        case (Inr df')
        let ?sw = "stamp_and_write sv cfg src p (before_first (CHR ''.'') (basename (Key obj))) df' w1"
        have "flushes (snd ?sw) = flushes w"
          by (simp add: stamp_and_write_flushes f1)
        with d \<open>r = Inr df\<close> False Inr show ?thesis
          by (cases ?sw) (auto simp: s3_try_def Let_def split: sum.splits)
      qed
    qed
  qed
qed

lemma s3_item_flushes:
  "flushes (snd (snd (s3_item sv cfg src flt obj (processed, np, w)))) = flushes w"
  using s3_try_flushes[of sv cfg src obj "''s3://'' @ Bucket obj @ ''/'' @ Key obj" w]
  by (auto simp: s3_item_def Let_def emit_flushes split: prod.splits sum.splits option.splits)

lemma length_update:
  "length (AList.update k v m) = (if k \<in> fst ` set m then length m else Suc (length m))"
  by (induction m) auto

lemma s3_item_flag:
  "length processed \<le> length (fst (s3_item sv cfg src flt obj (processed, np, w))) \<and>
   (fst (snd (s3_item sv cfg src flt obj (processed, np, w))) \<longleftrightarrow>
      np \<or> length processed < length (fst (s3_item sv cfg src flt obj (processed, np, w))))"
  by (auto simp: s3_item_def Let_def length_update split: prod.splits sum.splits option.splits)

lemma s3_loop_flushes_flag:
  "flushes (snd (snd (s3_loop sv cfg src flt objects (processed, np, w)))) = flushes w \<and>
   length processed \<le> length (fst (s3_loop sv cfg src flt objects (processed, np, w))) \<and>
   (fst (snd (s3_loop sv cfg src flt objects (processed, np, w))) \<longleftrightarrow>
      np \<or> length processed < length (fst (s3_loop sv cfg src flt objects (processed, np, w))))"
proof (induction objects arbitrary: processed np w)
  case Nil
  then show ?case by simp
next
  case (Cons obj objects)
  obtain p1 np1 w1 where i: "s3_item sv cfg src flt obj (processed, np, w) = (p1, np1, w1)"
    by (cases "s3_item sv cfg src flt obj (processed, np, w)") auto
  from s3_item_flushes[of sv cfg src flt obj processed np w] i have f: "flushes w1 = flushes w"
    by simp
  from s3_item_flag[of processed sv cfg src flt obj np w] i
  have g: "length processed \<le> length p1" "np1 \<longleftrightarrow> np \<or> length processed < length p1"
    by simp_all
  from Cons.IH[of p1 np1 w1] f g i show ?case by auto
qed

text \<open>
  The object-store flow flushes once when its loop added a key to the manifest, and not
  at all otherwise.
\<close>

lemma process_s3_prefix_flush_once:
  assumes "list_s3_objects sv prefix_s3 = Inr objects"
  shows "flushes (snd (process_s3_prefix sv cfg prefix_s3 src flt w)) =
           flushes w +
           (if length (fst (read_processed_manifest sv w)) <
               length (fst (s3_loop sv cfg src flt objects
                 (fst (read_processed_manifest sv w), False,
                  snd (read_processed_manifest sv (emit (LogInfo (''Processing prefix '' @ prefix_s3)) w)))))
            then 1 else 0)"
proof -
  let ?w0 = "emit (LogInfo (''Processing prefix '' @ prefix_s3)) w"
  obtain m w1 where rd: "read_processed_manifest sv ?w0 = (m, w1)"
    by (cases "read_processed_manifest sv ?w0")
  have m: "m = fst (read_processed_manifest sv w)"
    using rd by (auto simp: read_processed_manifest_def emit_def split: option.splits)
  have "only_logged ?w0 w1"
    using read_manifest_only_logged[of ?w0 sv] rd by simp
  then have f1: "flushes w1 = flushes w"
    by (simp add: only_logged_flushes emit_flushes)
  obtain p np w2 where lp: "s3_loop sv cfg src flt objects (m, False, w1) = (p, np, w2)"
    by (cases "s3_loop sv cfg src flt objects (m, False, w1)") auto
  from s3_loop_flushes_flag[of sv cfg src flt objects m False w1] lp
  have f2: "flushes w2 = flushes w1" and g: "np \<longleftrightarrow> length m < length p" by simp_all
  have wf: "flushes (write_processed_manifest sv p w2) = Suc (flushes w2)"
    by (simp add: write_processed_manifest_def Let_def flushes_def emit_def split: option.splits)
  have "process_s3_prefix sv cfg prefix_s3 src flt w =
          (Inr (), if np then write_processed_manifest sv p w2 else w2)"
    using assms rd lp by (simp add: process_s3_prefix_def Let_def)
  with f1 f2 g wf lp rd m show ?thesis by simp
qed

lemma pg_try_flushes: "flushes (snd (pg_try sv cfg src creds table identifier w)) = flushes w"
proof -
  obtain r w1 where d: "extract_postgres_table_to_df sv cfg table creds w = (r, w1)"
    by (cases "extract_postgres_table_to_df sv cfg table creds w")
  from extract_postgres_only_logged[of w sv cfg table creds] d have f1: "flushes w1 = flushes w"
    by (simp add: only_logged_flushes)
  show ?thesis
  proof (cases r)
    case (Inl e)
    with d f1 show ?thesis by (simp add: pg_try_def)
  next
    case (Inr df)
    show ?thesis
    proof (cases "df_empty df")
      case True
      with d Inr f1 show ?thesis by (simp add: pg_try_def emit_flushes)
    next
      case False
      show ?thesis
      proof (cases "email_hygiene (normalize_columns df)")
        case (Inl e)
        with d Inr False f1 show ?thesis by (simp add: pg_try_def)
      next
        case (Inr df')
        let ?sw = "stamp_and_write sv cfg src identifier table df' w1"
        have "flushes (snd ?sw) = flushes w"
          by (simp add: stamp_and_write_flushes f1)
        with d \<open>r = Inr df\<close> False Inr show ?thesis
          by (cases ?sw) (auto simp: pg_try_def Let_def split: sum.splits)
      qed
    qed
  qed
qed

lemma pg_loop_flushes:
  "flushes (snd (pg_loop sv cfg src creds tables (processed, w))) = flushes w"
proof (induction tables arbitrary: processed w)
  case Nil
  then show ?case by simp
next
  case (Cons table tables)
  show ?case
  proof (cases "dict_get creds ''host''")
    case (Inl e)
    then show ?thesis by simp
  next
    case host: (Inr host)
    show ?thesis
    proof (cases "dict_get creds ''dbname''")
      case (Inl e)
      with host show ?thesis by simp
    next
      case db: (Inr dbname)
      let ?id = "''postgres://'' @ host @ ''/'' @ dbname @ ''/'' @ table"
      obtain r w1 where t: "pg_try sv cfg src creds table ?id w = (r, w1)"
        by (cases "pg_try sv cfg src creds table ?id w")
      from pg_try_flushes[of sv cfg src creds table ?id w] t have f: "flushes w1 = flushes w"
        by simp
      show ?thesis
        using host db t f Cons.IH
        by (auto simp: Let_def emit_flushes split: sum.splits option.splits)
    qed
  qed
qed

text \<open>The table flow flushes once whenever it returns, whatever its loop did.\<close>

lemma process_postgres_tables_always_flushes:
  assumes "fst (process_postgres_tables sv cfg table_names ssm_param src w) = Inr ()"
  shows "flushes (snd (process_postgres_tables sv cfg table_names ssm_param src w)) =
           Suc (flushes w)"
proof -
  obtain m w1 where rd: "read_processed_manifest sv w = (m, w1)"
    by (cases "read_processed_manifest sv w")
  from read_manifest_only_logged[of w sv] rd have f1: "flushes w1 = flushes w"
    by (simp add: only_logged_flushes)
  from assms rd obtain creds where c: "get_ssm_param_json sv ssm_param = Inr creds"
    by (cases "get_ssm_param_json sv ssm_param") (auto simp: process_postgres_tables_def)
  obtain r w2 where lp: "pg_loop sv cfg src creds table_names (m, w1) = (r, w2)"
    by (cases "pg_loop sv cfg src creds table_names (m, w1)")
  from pg_loop_flushes[of sv cfg src creds table_names m w1] lp have f2: "flushes w2 = flushes w1"
    by simp
  from assms rd c lp obtain p where p: "r = Inr p"
    by (cases r) (auto simp: process_postgres_tables_def)
  have wf: "flushes (write_processed_manifest sv p w2) = Suc (flushes w2)"
    by (simp add: write_processed_manifest_def Let_def flushes_def emit_def split: option.splits)
  from rd c lp p have "process_postgres_tables sv cfg table_names ssm_param src w =
      (Inr (), write_processed_manifest sv p w2)"
    by (simp add: process_postgres_tables_def)
  with wf f1 f2 show ?thesis by simp
qed

section \<open>The validation pattern\<close>

lemma at_not_local: "\<not> local_char (CHR ''@'')"
  by (simp add: local_char_def is_alnum_def is_digit_def is_ascii_lower_def is_ascii_upper_def)

lemma dot_not_alpha: "\<not> is_alpha (CHR ''.'')"
  by (simp add: is_alpha_def is_ascii_lower_def is_ascii_upper_def)

lemma email_lang_fullmatch:
  assumes "email_lang s"
  shows "email_fullmatch s"
proof -
  from assms obtain l d t where s: "s = l @ ''@'' @ d @ ''.'' @ t"
    and l: "l \<noteq> []" "list_all local_char l" and d: "d \<noteq> []" "list_all domain_char d"
    and t: "2 \<le> length t" "list_all is_alpha t"
    by (auto simp: email_lang_def)
  have tw: "takeWhile local_char s = l"
    using l(2) by (simp add: s takeWhile_append2 list_all_iff at_not_local)
  have dw: "dropWhile local_char s = ''@'' @ d @ ''.'' @ t"
    using l(2) by (simp add: s dropWhile_append2 list_all_iff at_not_local)
  have r: "rev (tl (dropWhile local_char s)) = rev t @ CHR ''.'' # rev d"
    by (simp add: dw)
  have ta: "takeWhile is_alpha (rev t @ CHR ''.'' # rev d) = rev t"
    using t(2) by (subst takeWhile_append2) (auto simp: list_all_iff dot_not_alpha)
  have da: "dropWhile is_alpha (rev t @ CHR ''.'' # rev d) = CHR ''.'' # rev d"
    using t(2) by (subst dropWhile_append2) (auto simp: list_all_iff dot_not_alpha)
  show ?thesis
    unfolding email_fullmatch_def Let_def r ta da tw
    using l d t by (simp add: dw)
qed

lemma email_fullmatch_lang:
  assumes "email_fullmatch s"
  shows "email_lang s"
proof -
  let ?l = "takeWhile local_char s" and ?r = "dropWhile local_char s"
  let ?t = "rev (takeWhile is_alpha (rev (tl ?r)))"
  let ?p = "rev (dropWhile is_alpha (rev (tl ?r)))"
  from assms have l: "?l \<noteq> []" and r: "?r \<noteq> []" "hd ?r = CHR ''@''"
    and t: "2 \<le> length ?t" and p: "?p \<noteq> []" "last ?p = CHR ''.''"
      "butlast ?p \<noteq> []" "list_all domain_char (butlast ?p)"
    by (simp_all add: email_fullmatch_def Let_def)
  have "s = ?l @ ?r" by simp
  moreover from r have "?r = CHR ''@'' # tl ?r" by (cases ?r) auto
  moreover have "tl ?r = ?p @ ?t"
  proof -
    have "rev (tl ?r) = takeWhile is_alpha (rev (tl ?r)) @ dropWhile is_alpha (rev (tl ?r))"
      by simp
    then have "rev (rev (tl ?r)) = rev (takeWhile is_alpha (rev (tl ?r)) @ dropWhile is_alpha (rev (tl ?r)))"
      by simp
    then show ?thesis by (simp only: rev_rev_ident rev_append)
  qed
  moreover from p(1,2) have "?p = butlast ?p @ ''.''"
    by (metis append_butlast_last_id)
  ultimately have s: "s = ?l @ ''@'' @ butlast ?p @ ''.'' @ ?t"
    by (metis append_Cons append_Nil append_assoc)
  have ll: "list_all local_char ?l"
    by (simp add: list_all_iff) (meson set_takeWhileD)
  have tt: "list_all is_alpha ?t"
    by (simp add: list_all_iff) (meson set_takeWhileD)
  from s l ll p(3,4) t tt show ?thesis
    unfolding email_lang_def by blast
qed

text \<open>The matching function decides exactly the words of the pattern.\<close>

lemma email_fullmatch_iff_lang: "email_fullmatch s \<longleftrightarrow> email_lang s"
  using email_lang_fullmatch email_fullmatch_lang by blast


end
